theory Spec2Isabelle
  imports Main "HOL-Library.Word"
begin

section \<open>Data model\<close>

text \<open>
  The module \<^verbatim>\<open>src/src/mosaicify.js\<close> turns an image into a mosaic of coloured glyphs.
  Its numbers are JavaScript doubles; every quantity below (pixel coordinates, channel sums,
  tile counts) is a non-negative integer far below \<open>2 ^ 53\<close>, where double arithmetic is
  exact, so sizes and sums are \<open>nat\<close>. A colour channel is one element of a
  \<^verbatim>\<open>Uint8ClampedArray\<close>, an 8-bit word.
\<close>

type_synonym byte = "8 word"

text \<open>A pixel in the order of \<^verbatim>\<open>ImageData.data\<close>: red, green, blue, alpha.\<close>

type_synonym pixel = "byte \<times> byte \<times> byte \<times> byte"

fun red :: "pixel \<Rightarrow> byte" where
  "red (r, g, b, a) = r"

fun green :: "pixel \<Rightarrow> byte" where
  "green (r, g, b, a) = g"

fun blue :: "pixel \<Rightarrow> byte" where
  "blue (r, g, b, a) = b"

fun alpha :: "pixel \<Rightarrow> byte" where
  "alpha (r, g, b, a) = a"

definition transparent :: pixel where
  "transparent = (0, 0, 0, 0)"

text \<open>
  Everything with a \<^verbatim>\<open>width\<close> and a \<^verbatim>\<open>height\<close>: the source image, the object
  \<^verbatim>\<open>clipImage\<close> returns, and the canvas.
\<close>

record dims =
  width :: nat
  height :: nat

record image = dims +
  pixelAt :: "nat \<Rightarrow> nat \<Rightarrow> pixel"

record clip = dims +
  offsetX :: nat
  offsetY :: nat

text \<open>
  A decoded glyph is the \<^verbatim>\<open>Image\<close> element that \<^verbatim>\<open>loadSVGtoIMG\<close> builds from an SVG text;
  its raster is not inspected by the module, so it is identified by that text.
\<close>

datatype glyph = Glyph string

text \<open>
  The canvas holds the pixels of the base layer (what \<^verbatim>\<open>getImageData\<close> reads while the
  tile grid is computed) and the list of the mutations made afterwards by the row renderer,
  in the order they were made.
\<close>

datatype canvas_op =
    ClearRect nat nat nat nat
  | DrawImage glyph nat nat

record canvas = dims +
  pixels :: "nat \<Rightarrow> nat \<Rightarrow> pixel"
  ops :: "canvas_op list"

datatype error = NetworkError | RangeError | QuotaExceededError

text \<open>
  The state a promise ends in. \<open>Pending\<close> is a promise that never settles: neither its
  fulfilment nor its rejection handlers ever run.
\<close>

datatype 'a promise = Resolved 'a | Rejected error | Pending

text \<open>
  The globals the module reads and the collaborators it calls. \<^verbatim>\<open>TILE_WIDTH\<close> and
  \<^verbatim>\<open>TILE_HEIGHT\<close> are declared outside the repository's sources and are parameters here.
  \<open>fetch\<close> is the outcome of \<^verbatim>\<open>fetch('http://localhost:8765/color/' + color)\<close> followed by
  \<^verbatim>\<open>response.text()\<close>; \<open>decodable\<close> says whether the browser fires \<^verbatim>\<open>onload\<close> for an
  image whose source is the given SVG text; \<open>quotaExceeded\<close> says whether
  \<^verbatim>\<open>localStorage.setItem\<close> throws for the given contents, key and value. Each is a
  function: the service answers a colour the same way every time it is asked.
  \<open>arrival rowNum n\<close> lists column numbers: the order in which the \<open>n\<close> promises that row
  \<open>rowNum\<close> waits for are settled.
\<close>

record env =
  TILE_WIDTH :: nat
  TILE_HEIGHT :: nat
  fetch :: "string \<Rightarrow> string promise"
  decodable :: "string \<Rightarrow> bool"
  quotaExceeded :: "(string \<times> string) list \<Rightarrow> string \<Rightarrow> string \<Rightarrow> bool"
  arrival :: "nat \<Rightarrow> nat \<Rightarrow> nat list"

definition pixelsPerTile :: "env \<Rightarrow> nat" where
  "pixelsPerTile e = TILE_WIDTH e * TILE_HEIGHT e"

section \<open>Geometry clipper\<close>

definition clipImage :: "env \<Rightarrow> image \<Rightarrow> clip" where
  "clipImage e img =
     \<lparr> width = width img - width img mod TILE_WIDTH e,
       height = height img - height img mod TILE_HEIGHT e,
       offsetX = (width img mod TILE_WIDTH e) div 2,
       offsetY = (height img mod TILE_HEIGHT e) div 2 \<rparr>"

section \<open>Tile averager\<close>

text \<open>
  \<^verbatim>\<open>Array.prototype.reduce\<close> with the three-argument callback
  \<^verbatim>\<open>(accumulator, value, index)\<close>; the second argument of \<open>reduce\<close> is the index of the
  head of the list.
\<close>

fun reduce :: "('b \<Rightarrow> 'a \<Rightarrow> nat \<Rightarrow> 'b) \<Rightarrow> nat \<Rightarrow> 'a list \<Rightarrow> 'b \<Rightarrow> 'b" where
  "reduce f i [] acc = acc"
| "reduce f i (x # xs) acc = reduce f (Suc i) xs (f acc x i)"

text \<open>
  \<^verbatim>\<open>totalColor([r,g,b], colorValue, index)\<close>: the destructuring keeps the first three
  elements of the accumulator; every fourth value (alpha) is skipped.
\<close>

definition totalColor :: "nat list \<Rightarrow> byte \<Rightarrow> nat \<Rightarrow> nat list" where
  "totalColor acc colorValue index =
     (let color = take 3 acc
      in if index mod 4 = 3 then color
         else color[index mod 4 := color ! (index mod 4) + unat colorValue])"

definition average :: "env \<Rightarrow> nat \<Rightarrow> nat" where
  "average e tot = tot div pixelsPerTile e"

definition digitChar :: "nat \<Rightarrow> char" where
  "digitChar d = ''0123456789abcdefghijklmnopqrstuvwxyz'' ! d"

text \<open>
  \<^verbatim>\<open>Number.prototype.toString(radix)\<close> on a non-negative integer; the module calls it with
  radix 16 and, in template strings, with radix 10.
\<close>

function toString :: "nat \<Rightarrow> nat \<Rightarrow> string" where
  "toString radix n =
     (if n < radix \<or> radix < 2 then [digitChar n]
      else toString radix (n div radix) @ [digitChar (n mod radix)])"
  by pat_completeness auto
termination
  by (relation "measure (\<lambda>(radix, n). n)") auto

declare toString.simps [simp del]

definition toHex :: "nat \<Rightarrow> string" where
  "toHex dec =
     (let hex = toString 16 dec
      in if length hex = 1 then ''0'' @ hex else hex)"

text \<open>
  \<^verbatim>\<open>ctx.getImageData(sx, sy, sw, sh).data\<close>: the rectangle in row-major order, four bytes
  per pixel; a pixel outside the canvas reads as transparent black.
\<close>

definition readPixel :: "canvas \<Rightarrow> nat \<Rightarrow> nat \<Rightarrow> pixel" where
  "readPixel ctx x y =
     (if x < width ctx \<and> y < height ctx then pixels ctx x y else transparent)"

fun bytes :: "pixel \<Rightarrow> byte list" where
  "bytes (r, g, b, a) = [r, g, b, a]"

definition getImageData :: "canvas \<Rightarrow> nat \<Rightarrow> nat \<Rightarrow> nat \<Rightarrow> nat \<Rightarrow> byte list" where
  "getImageData ctx sx sy sw sh =
     concat (map (\<lambda>j. concat (map (\<lambda>i. bytes (readPixel ctx (sx + i) (sy + j))) [0..<sw]))
                 [0..<sh])"

text \<open>
  The value of one cell of \<^verbatim>\<open>mosaicArray\<close>:
  \<^verbatim>\<open>tileData.reduce(totalColor,[0,0,0]).map(average).map(toHex).join('')\<close>.
\<close>

definition tileColor :: "env \<Rightarrow> byte list \<Rightarrow> string" where
  "tileColor e tileData =
     concat (map toHex (map (average e) (reduce totalColor 0 tileData [0, 0, 0])))"

section \<open>Glyph cache\<close>

text \<open>
  \<^verbatim>\<open>localStorage\<close>: string keys and values in insertion order. Keys of other applications
  may be present; the module's own entries are those whose key starts with \<^verbatim>\<open>mosaic-\<close>.
\<close>

type_synonym storage = "(string \<times> string) list"

definition getItem :: "storage \<Rightarrow> string \<Rightarrow> string option" where
  "getItem st key = map_of st key"

fun store :: "string \<Rightarrow> string \<Rightarrow> storage \<Rightarrow> storage" where
  "store key v [] = [(key, v)]"
| "store key v ((k, u) # st) = (if k = key then (key, v) # st else (k, u) # store key v st)"

text \<open>\<^verbatim>\<open>localStorage.setItem\<close> either throws and leaves the storage as it was, or stores.\<close>

definition setItem :: "env \<Rightarrow> string \<Rightarrow> string \<Rightarrow> storage \<Rightarrow> error + storage" where
  "setItem e key v st =
     (if quotaExceeded e st key v then Inl QuotaExceededError else Inr (store key v st))"

definition removeItem :: "string \<Rightarrow> storage \<Rightarrow> storage" where
  "removeItem key st = filter (\<lambda>(k, v). k \<noteq> key) st"

text \<open>\<^verbatim>\<open>key.indexOf(p) === 0\<close>: the key starts with \<open>p\<close>.\<close>

definition startsWith :: "string \<Rightarrow> string \<Rightarrow> bool" where
  "startsWith key p = (take (length p) key = p)"

definition clearCachedSvgs :: "storage \<Rightarrow> storage" where
  "clearCachedSvgs st =
     (let arr = filter (\<lambda>key. startsWith key ''mosaic-'') (map fst st)
      in fold removeItem arr st)"

section \<open>Glyph resolver\<close>

text \<open>
  What a run can change besides the canvas: the storage, and the list of the colours
  requested from the network so far, oldest first.
\<close>

record world =
  storage :: storage
  requests :: "string list"

text \<open>
  A promise that is still in flight is the rest of its computation: run on the world as it
  is when the awaited event arrives, it gives the state the promise settles in and the
  world it leaves.
\<close>

type_synonym 'a deferred = "world \<Rightarrow> 'a promise \<times> world"

definition storageKey :: "env \<Rightarrow> string \<Rightarrow> string" where
  "storageKey e color =
     ''mosaic-'' @ color @ ''-'' @ toString 10 (TILE_WIDTH e) @ ''-'' @ toString 10 (TILE_HEIGHT e)"

text \<open>
  \<^verbatim>\<open>loadSVGtoIMG\<close> resolves in \<^verbatim>\<open>img.onload\<close>. It sets no \<^verbatim>\<open>onerror\<close> handler and
  never calls \<^verbatim>\<open>reject\<close>: when the image fails to load, the promise stays pending.
\<close>

definition loadSVGtoIMG :: "env \<Rightarrow> string \<Rightarrow> glyph promise" where
  "loadSVGtoIMG e svg = (if decodable e svg then Resolved (Glyph svg) else Pending)"

text \<open>The test \<^verbatim>\<open>if(storedColorSvg)\<close>: \<^verbatim>\<open>null\<close> and the empty string are falsy.\<close>

fun truthy :: "string option \<Rightarrow> bool" where
  "truthy None = False"
| "truthy (Some s) = (s \<noteq> [])"

text \<open>The callback \<^verbatim>\<open>svg => { try { setItem } catch { clearCachedSvgs() }; return loadSVGtoIMG(svg) }\<close>.\<close>

definition cacheAndLoad :: "env \<Rightarrow> string \<Rightarrow> string \<Rightarrow> glyph deferred" where
  "cacheAndLoad e key svg w =
     (case setItem e key svg (storage w) of
        Inr st \<Rightarrow> (loadSVGtoIMG e svg, w\<lparr>storage := st\<rparr>)
      | Inl err \<Rightarrow> (loadSVGtoIMG e svg, w\<lparr>storage := clearCachedSvgs (storage w)\<rparr>))"

text \<open>The chain \<^verbatim>\<open>fetch(...).then(response => response.text()).then(svg => ...)\<close>.\<close>

definition fetched :: "env \<Rightarrow> string \<Rightarrow> string \<Rightarrow> glyph deferred" where
  "fetched e key color w =
     (case fetch e color of
        Resolved svg \<Rightarrow> cacheAndLoad e key svg w
      | Rejected err \<Rightarrow> (Rejected err, w)
      | Pending \<Rightarrow> (Pending, w))"

text \<open>
  The call \<^verbatim>\<open>requestSVG(color)\<close> itself: the cache is read at once; on a miss the request
  is issued at once and the rest runs when the response arrives.
\<close>

definition requestSVG :: "env \<Rightarrow> string \<Rightarrow> world \<Rightarrow> glyph deferred \<times> world" where
  "requestSVG e color w =
     (let key = storageKey e color;
          storedColorSvg = getItem (storage w) key
      in if truthy storedColorSvg
         then (\<lambda>w'. (loadSVGtoIMG e (the storedColorSvg), w'), w)
         else (fetched e key color, w\<lparr>requests := requests w @ [color]\<rparr>))"

text \<open>One resolution run to its end with nothing else in flight.\<close>

definition resolve :: "env \<Rightarrow> string \<Rightarrow> world \<Rightarrow> glyph promise \<times> world" where
  "resolve e color w = (let (d, w1) = requestSVG e color w in d w1)"

section \<open>Row renderer\<close>

text \<open>
  \<^verbatim>\<open>tileRow.map(color => requestSVG(color))\<close> runs every call, and so reads the cache for
  every colour of the row, before any promise of the row is settled.
\<close>

fun requestAll :: "env \<Rightarrow> string list \<Rightarrow> world \<Rightarrow> glyph deferred list \<times> world" where
  "requestAll e [] w = ([], w)"
| "requestAll e (color # tileRow) w =
     (let (d, w1) = requestSVG e color w;
          (ds, w2) = requestAll e tileRow w1
      in (d # ds, w2))"

text \<open>
  The promises of a row are settled one at a time, in the order the environment gives.
  Whatever \<open>arrival\<close> lists, every promise is settled once: column numbers that are out of
  range or repeated are dropped, and the columns not listed follow in column order.
\<close>

definition settleOrder :: "env \<Rightarrow> nat \<Rightarrow> nat \<Rightarrow> nat list" where
  "settleOrder e rowNum n =
     (let given = remdups (filter (\<lambda>i. i < n) (arrival e rowNum n))
      in given @ filter (\<lambda>i. i \<notin> set given) [0..<n])"

text \<open>
  Settling the promises \<open>ds\<close> in the given order: each runs on the world the one before it
  left. The result lists, in that order, each column with the state its promise ends in.
\<close>

fun settleIn :: "'a deferred list \<Rightarrow> nat list \<Rightarrow> world \<Rightarrow> (nat \<times> 'a promise) list \<times> world" where
  "settleIn ds [] w = ([], w)"
| "settleIn ds (i # order) w =
     (let (p, w1) = (ds ! i) w;
          (ps, w2) = settleIn ds order w1
      in ((i, p) # ps, w2))"

text \<open>
  \<^verbatim>\<open>Promise.all\<close> of \<open>n\<close> promises: rejected with the first rejection in the order of
  settling; otherwise pending while one input is pending; otherwise resolved with all the
  values in column order.
\<close>

fun firstRejected :: "'a promise list \<Rightarrow> error option" where
  "firstRejected [] = None"
| "firstRejected (Rejected err # ps) = Some err"
| "firstRejected (p # ps) = firstRejected ps"

definition byColumn :: "nat \<Rightarrow> (nat \<times> 'a promise) list \<Rightarrow> 'a promise list" where
  "byColumn n settled =
     map (\<lambda>i. case map_of settled i of Some p \<Rightarrow> p | None \<Rightarrow> Pending) [0..<n]"

fun inColumns :: "'a promise list \<Rightarrow> 'a list promise" where
  "inColumns [] = Resolved []"
| "inColumns (Rejected err # ps) = Rejected err"
| "inColumns (Pending # ps) =
     (case inColumns ps of Rejected err \<Rightarrow> Rejected err | _ \<Rightarrow> Pending)"
| "inColumns (Resolved v # ps) =
     (case inColumns ps of
        Resolved vs \<Rightarrow> Resolved (v # vs)
      | Rejected err \<Rightarrow> Rejected err
      | Pending \<Rightarrow> Pending)"

definition promiseAll :: "nat \<Rightarrow> (nat \<times> 'a promise) list \<Rightarrow> 'a list promise" where
  "promiseAll n settled =
     (case firstRejected (map snd settled) of
        Some err \<Rightarrow> Rejected err
      | None \<Rightarrow> inColumns (byColumn n settled))"

definition drawTile :: "env \<Rightarrow> nat \<Rightarrow> canvas \<Rightarrow> glyph \<Rightarrow> nat \<Rightarrow> canvas" where
  "drawTile e rowNum ctx svg colNum =
     ctx\<lparr>ops := ops ctx @
       [ClearRect (colNum * TILE_WIDTH e) (rowNum * TILE_HEIGHT e) (TILE_WIDTH e) (TILE_HEIGHT e),
        DrawImage svg (colNum * TILE_WIDTH e) (rowNum * TILE_HEIGHT e)]\<rparr>"

definition renderRow ::
  "env \<Rightarrow> string list \<Rightarrow> nat \<Rightarrow> world \<Rightarrow> canvas \<Rightarrow> unit promise \<times> world \<times> canvas" where
  "renderRow e tileRow rowNum w ctx =
     (let (ds, w1) = requestAll e tileRow w;
          (settled, w2) = settleIn ds (settleOrder e rowNum (length ds)) w1
      in case promiseAll (length ds) settled of
           Resolved svgs \<Rightarrow> (Resolved (), w2, reduce (drawTile e rowNum) 0 svgs ctx)
         | Rejected err \<Rightarrow> (Rejected err, w2, ctx)
         | Pending \<Rightarrow> (Pending, w2, ctx))"

section \<open>Mosaic orchestrator\<close>

text \<open>
  One step of the chain built by \<^verbatim>\<open>mosaic.reduce\<close>: \<^verbatim>\<open>p.then(() => renderRow(row,rowNum,ctx))\<close>
  renders the row when \<open>p\<close> is fulfilled and passes a rejected or pending \<open>p\<close> on.
\<close>

fun thenRenderRow ::
  "env \<Rightarrow> unit promise \<times> world \<times> canvas \<Rightarrow> string list \<Rightarrow> nat \<Rightarrow> unit promise \<times> world \<times> canvas"
  where
  "thenRenderRow e (Resolved u, w, ctx) row rowNum = renderRow e row rowNum w ctx"
| "thenRenderRow e (p, w, ctx) row rowNum = (p, w, ctx)"

definition renderMosaic ::
  "env \<Rightarrow> string list list \<Rightarrow> world \<Rightarrow> canvas \<Rightarrow> unit promise \<times> world \<times> canvas" where
  "renderMosaic e mosaic w ctx = reduce (thenRenderRow e) 0 mosaic (Resolved (), w, ctx)"

text \<open>
  The quotient \<^verbatim>\<open>width/tileWidth\<close> is a double. \<open>None\<close> stands for every value that is not
  a natural number: a fraction, \<^verbatim>\<open>Infinity\<close> or \<^verbatim>\<open>NaN\<close>. \<^verbatim>\<open>Array(num)\<close> in
  \<^verbatim>\<open>range\<close> throws a \<^verbatim>\<open>RangeError\<close> for these.
\<close>

definition quotient :: "nat \<Rightarrow> nat \<Rightarrow> nat option" where
  "quotient a b = (if b \<noteq> 0 \<and> a mod b = 0 then Some (a div b) else None)"

fun range :: "nat option \<Rightarrow> error + nat list" where
  "range None = Inl RangeError"
| "range (Some num) = Inr [0..<num]"

text \<open>\<^verbatim>\<open>Array.prototype.map\<close> with a callback that may throw.\<close>

fun mapE :: "('a \<Rightarrow> error + 'b) \<Rightarrow> 'a list \<Rightarrow> error + 'b list" where
  "mapE f [] = Inr []"
| "mapE f (x # xs) =
     (case f x of
        Inl err \<Rightarrow> Inl err
      | Inr y \<Rightarrow> (case mapE f xs of Inl err \<Rightarrow> Inl err | Inr ys \<Rightarrow> Inr (y # ys)))"

definition mosaicArray ::
  "env \<Rightarrow> canvas \<Rightarrow> nat \<Rightarrow> nat \<Rightarrow> nat \<Rightarrow> nat \<Rightarrow> error + string list list" where
  "mosaicArray e ctx w h tileWidth tileHeight =
     (let xTotal = quotient w tileWidth;
          yTotal = quotient h tileHeight
      in case range yTotal of
           Inl err \<Rightarrow> Inl err
         | Inr ys \<Rightarrow>
             mapE (\<lambda>y. case range xTotal of
                         Inl err \<Rightarrow> Inl err
                       | Inr xs \<Rightarrow>
                           Inr (map (\<lambda>x. tileColor e
                                           (getImageData ctx (TILE_WIDTH e * x) (TILE_HEIGHT e * y)
                                              (TILE_WIDTH e) (TILE_HEIGHT e))) xs)) ys)"

text \<open>
  A canvas keeps its colours premultiplied by alpha, in 8 bits, and \<^verbatim>\<open>getImageData\<close>
  divides them by alpha again. \<open>readBack\<close> is the pixel read back for a pixel drawn onto a
  cleared canvas: an opaque pixel is read back as it is, a fully transparent one as
  transparent black, and a translucent one after both steps, each rounded to the nearest
  integer, so that it may come back with other colour bytes.
\<close>

definition roundDiv :: "nat \<Rightarrow> nat \<Rightarrow> nat" where
  "roundDiv n d = (2 * n + d) div (2 * d)"

definition premultiply :: "byte \<Rightarrow> byte \<Rightarrow> byte" where
  "premultiply c a = of_nat (roundDiv (unat c * unat a) 255)"

definition unpremultiply :: "byte \<Rightarrow> byte \<Rightarrow> byte" where
  "unpremultiply p a = of_nat (min 255 (roundDiv (unat p * 255) (unat a)))"

fun readBack :: "pixel \<Rightarrow> pixel" where
  "readBack (r, g, b, a) =
     (if a = 255 then (r, g, b, a)
      else if a = 0 then transparent
      else (unpremultiply (premultiply r a) a, unpremultiply (premultiply g a) a,
            unpremultiply (premultiply b a) a, a))"

text \<open>
  Assigning \<^verbatim>\<open>canvas.width\<close> and \<^verbatim>\<open>canvas.height\<close> clears the canvas;
  \<^verbatim>\<open>ctx.drawImage(img,offsetX,offsetY,width,height,0,0,width,height)\<close> then draws the
  clipped rectangle of the image, unscaled, and \<open>pixels\<close> is what \<^verbatim>\<open>getImageData\<close> reads
  back from it. The page's \<^verbatim>\<open>container\<close> element, which \<^verbatim>\<open>generateMosaic\<close> resizes and
  into which it inserts the canvas, holds no state the module reads back and is left out.
\<close>

definition baseLayer :: "image \<Rightarrow> clip \<Rightarrow> canvas \<Rightarrow> canvas" where
  "baseLayer img c cv =
     cv\<lparr> width := width c, height := height c,
         pixels := (\<lambda>x y. if x < width c \<and> y < height c
                          then readBack (pixelAt img (offsetX c + x) (offsetY c + y))
                          else transparent),
         ops := [] \<rparr>"

text \<open>
  What a call of \<^verbatim>\<open>generate\<close> leaves: \<open>returned\<close> is \<open>Inl\<close> when the call throws before it
  returns its promise, else the state that promise ends in; \<open>tiles\<close> is the local
  \<^verbatim>\<open>mosaicArray\<close>; \<open>after\<close> and \<open>surface\<close> are the world and the canvas at the end. The
  promise's value is \<^verbatim>\<open>{mosaicURL, executionTime}\<close>: the first is
  \<^verbatim>\<open>canvas.toDataURL()\<close>, the encoding of \<open>surface\<close>, and the elapsed time is not modelled,
  so the value is \<open>()\<close>. The tile-size arguments are natural numbers.
\<close>

record run =
  returned :: "error + unit promise"
  tiles :: "error + string list list"
  after :: world
  surface :: canvas

definition generateMosaic :: "env \<Rightarrow> image \<Rightarrow> canvas \<Rightarrow> nat \<Rightarrow> nat \<Rightarrow> world \<Rightarrow> run" where
  "generateMosaic e img cv tileWidth tileHeight w =
     (let w1 = w\<lparr>storage := clearCachedSvgs (storage w)\<rparr>;
          c = clipImage e img;
          ctx = baseLayer img c cv;
          grid = mosaicArray e ctx (width c) (height c) tileWidth tileHeight
      in case grid of
           Inl err \<Rightarrow> \<lparr> returned = Inl err, tiles = grid, after = w1, surface = ctx \<rparr>
         | Inr mosaic \<Rightarrow>
             (let (p, w2, ctx2) = renderMosaic e mosaic w1 ctx
              in \<lparr> returned = Inr (case p of
                                      Resolved u \<Rightarrow> Resolved ()
                                    | Rejected err \<Rightarrow> Rejected err
                                    | Pending \<Rightarrow> Pending),
                   tiles = grid, after = w2, surface = ctx2 \<rparr>))"

text \<open>\<^verbatim>\<open>Mosaicify.generate(img)\<close> as the page calls it: a new canvas, the default tile size.\<close>

definition blankCanvas :: canvas where
  "blankCanvas = \<lparr> width = 300, height = 150, pixels = (\<lambda>x y. transparent), ops = [] \<rparr>"

definition generate :: "env \<Rightarrow> image \<Rightarrow> world \<Rightarrow> run" where
  "generate e img w = generateMosaic e img blankCanvas (TILE_WIDTH e) (TILE_HEIGHT e) w"

section \<open>Notions used to state the properties\<close>

text \<open>
  The cache has no usable entry for the colour: \<^verbatim>\<open>requestSVG\<close> takes the network path.
\<close>

definition missing :: "env \<Rightarrow> storage \<Rightarrow> string \<Rightarrow> bool" where
  "missing e st color = (\<not> truthy (getItem st (storageKey e color)))"

text \<open>
  The world and the canvas with which \<^verbatim>\<open>generateMosaic\<close> starts to render: the cache
  cleared, the canvas holding the clipped image and nothing else.
\<close>

definition startWorld :: "world \<Rightarrow> world" where
  "startWorld w = w\<lparr>storage := clearCachedSvgs (storage w)\<rparr>"

definition startCanvas :: "env \<Rightarrow> image \<Rightarrow> canvas \<Rightarrow> canvas" where
  "startCanvas e img cv = baseLayer img (clipImage e img) cv"

text \<open>
  A glyph blob is a text that the browser loads as an image; the empty text is none.
\<close>

definition glyphBlob :: "env \<Rightarrow> string \<Rightarrow> bool" where
  "glyphBlob e svg = (svg \<noteq> [] \<and> decodable e svg)"

text \<open>
  The state in which the resolution of a colour ends when \<^verbatim>\<open>requestSVG\<close> is called on the
  storage \<open>st\<close>: that of the lookup when the colour is missing and the lookup fails or never
  answers, else that of decoding the cached or the fetched blob.
\<close>

definition outcomeOf :: "env \<Rightarrow> storage \<Rightarrow> string \<Rightarrow> glyph promise" where
  "outcomeOf e st color =
     (if missing e st color
      then (case fetch e color of
              Resolved svg \<Rightarrow> loadSVGtoIMG e svg
            | Rejected err \<Rightarrow> Rejected err
            | Pending \<Rightarrow> Pending)
      else loadSVGtoIMG e (the (getItem st (storageKey e color))))"

definition succeeds :: "env \<Rightarrow> storage \<Rightarrow> string \<Rightarrow> bool" where
  "succeeds e st color = (case outcomeOf e st color of Resolved g \<Rightarrow> True | _ \<Rightarrow> False)"

text \<open>
  The state in which \<^verbatim>\<open>Promise.all\<close> of a row ends when the row's calls of
  \<^verbatim>\<open>requestSVG\<close> were made on the storage \<open>st\<close>.
\<close>

definition rowPromise :: "env \<Rightarrow> storage \<Rightarrow> nat \<Rightarrow> string list \<Rightarrow> glyph list promise" where
  "rowPromise e st rowNum tileRow =
     promiseAll (length tileRow)
       (map (\<lambda>i. (i, outcomeOf e st (tileRow ! i))) (settleOrder e rowNum (length tileRow)))"

text \<open>The glyphs a row is drawn with when every resolution of the row succeeds.\<close>

definition rowGlyphs :: "env \<Rightarrow> storage \<Rightarrow> string list \<Rightarrow> glyph list" where
  "rowGlyphs e st tileRow =
     map (\<lambda>color. case outcomeOf e st color of Resolved g \<Rightarrow> g | _ \<Rightarrow> Glyph []) tileRow"

text \<open>
  The canvas mutations of one complete row: for every column, left to right, the tile's
  rectangle is cleared and the glyph is drawn at the tile's offset.
\<close>

definition rowTiles :: "env \<Rightarrow> nat \<Rightarrow> glyph list \<Rightarrow> canvas_op list" where
  "rowTiles e rowNum svgs =
     concat (map (\<lambda>colNum.
                   [ClearRect (colNum * TILE_WIDTH e) (rowNum * TILE_HEIGHT e)
                      (TILE_WIDTH e) (TILE_HEIGHT e),
                    DrawImage (svgs ! colNum) (colNum * TILE_WIDTH e) (rowNum * TILE_HEIGHT e)])
             [0..<length svgs])"



text \<open>
  Every cache entry of the storage is keyed by the key of one of the given colours and
  holds what the service answers for that colour.
\<close>

definition cacheWithin :: "env \<Rightarrow> string set \<Rightarrow> storage \<Rightarrow> bool" where
  "cacheWithin e colors st =
     (\<forall>(key, v)\<in>set st. startsWith key ''mosaic-'' \<longrightarrow>
        (\<exists>color\<in>colors. key = storageKey e color \<and> fetch e color = Resolved v))"

text \<open>The world and the canvas that the renders of the rows of a grid leave.\<close>

definition worldAfter :: "env \<Rightarrow> string list list \<Rightarrow> world \<Rightarrow> canvas \<Rightarrow> world" where
  "worldAfter e mosaic w ctx = fst (snd (renderMosaic e mosaic w ctx))"

definition canvasAfter :: "env \<Rightarrow> string list list \<Rightarrow> world \<Rightarrow> canvas \<Rightarrow> canvas" where
  "canvasAfter e mosaic w ctx = snd (snd (renderMosaic e mosaic w ctx))"


section \<open>The specification's notions\<close>

text \<open>Two hexadecimal digits, zero-padded, lower case.\<close>

definition hex2 :: "nat \<Rightarrow> string" where
  "hex2 n = [''0123456789abcdef'' ! (n div 16), ''0123456789abcdef'' ! (n mod 16)]"

text \<open>
  The sum of one channel over the \<open>w\<close> by \<open>h\<close> block of pixels whose top left pixel is
  \<open>(x0, y0)\<close>, and the pixels of that block in row-major order.
\<close>

definition channelSum ::
  "(pixel \<Rightarrow> byte) \<Rightarrow> (nat \<Rightarrow> nat \<Rightarrow> pixel) \<Rightarrow> nat \<Rightarrow> nat \<Rightarrow> nat \<Rightarrow> nat \<Rightarrow> nat" where
  "channelSum ch px x0 y0 w h =
     (\<Sum>j\<leftarrow>[0..<h]. \<Sum>i\<leftarrow>[0..<w]. unat (ch (px (x0 + i) (y0 + j))))"

definition blockPixels :: "(nat \<Rightarrow> nat \<Rightarrow> pixel) \<Rightarrow> nat \<Rightarrow> nat \<Rightarrow> nat \<Rightarrow> nat \<Rightarrow> pixel list" where
  "blockPixels px x0 y0 w h =
     concat (map (\<lambda>j. map (\<lambda>i. px (x0 + i) (y0 + j)) [0..<w]) [0..<h])"

text \<open>
  The colour of the tile in column \<open>x\<close> and row \<open>y\<close> for the pixels \<open>px\<close>: each channel's sum
  over the tile's block in the clipped image, floor-divided by the number of pixels, as two
  hexadecimal digits. \<open>blockAverageHex\<close> takes the pixels of the source image,
  \<open>readBackAverageHex\<close> those pixels as the canvas reads them back.
\<close>

definition averageHex :: "env \<Rightarrow> image \<Rightarrow> (nat \<Rightarrow> nat \<Rightarrow> pixel) \<Rightarrow> nat \<Rightarrow> nat \<Rightarrow> string" where
  "averageHex e img px x y =
     (let x0 = offsetX (clipImage e img) + TILE_WIDTH e * x;
          y0 = offsetY (clipImage e img) + TILE_HEIGHT e * y;
          n = TILE_WIDTH e * TILE_HEIGHT e
      in hex2 (channelSum red px x0 y0 (TILE_WIDTH e) (TILE_HEIGHT e) div n) @
         hex2 (channelSum green px x0 y0 (TILE_WIDTH e) (TILE_HEIGHT e) div n) @
         hex2 (channelSum blue px x0 y0 (TILE_WIDTH e) (TILE_HEIGHT e) div n))"

definition blockAverageHex :: "env \<Rightarrow> image \<Rightarrow> nat \<Rightarrow> nat \<Rightarrow> string" where
  "blockAverageHex e img x y = averageHex e img (pixelAt img) x y"

definition readBackAverageHex :: "env \<Rightarrow> image \<Rightarrow> nat \<Rightarrow> nat \<Rightarrow> string" where
  "readBackAverageHex e img x y = averageHex e img (\<lambda>i j. readBack (pixelAt img i j)) x y"

text \<open>
  Every pixel of the tile's block in the image has the given red, green and blue values;
  every pixel of the tile as the canvas reads it back has them; every pixel of the tile's
  block is opaque.
\<close>

definition uniformBlock :: "env \<Rightarrow> image \<Rightarrow> nat \<Rightarrow> nat \<Rightarrow> byte \<times> byte \<times> byte \<Rightarrow> bool" where
  "uniformBlock e img x y rgb =
     (\<forall>j<TILE_HEIGHT e. \<forall>i<TILE_WIDTH e.
        (let p = pixelAt img (offsetX (clipImage e img) + TILE_WIDTH e * x + i)
                             (offsetY (clipImage e img) + TILE_HEIGHT e * y + j)
         in (red p, green p, blue p) = rgb))"



section \<open>Concrete inputs\<close>

text \<open>
  Tiles of 2 by 2 pixels, a glyph service that answers every colour, images that always
  decode, a storage that never fills up, and promises that settle in column order.
\<close>

definition env0 :: env where
  "env0 = \<lparr> TILE_WIDTH = 2, TILE_HEIGHT = 2, fetch = (\<lambda>color. Resolved (''<svg>'' @ color)),
            decodable = (\<lambda>svg. True), quotaExceeded = (\<lambda>st key v. False),
            arrival = (\<lambda>rowNum n. [0..<n]) \<rparr>"

text \<open>
  Tiles of one pixel and a glyph service whose lookup of the colour \<^verbatim>\<open>0c2238\<close> fails; the
  promises of a row settle right to left.
\<close>

definition env1 :: env where
  "env1 = \<lparr> TILE_WIDTH = 1, TILE_HEIGHT = 1,
            fetch = (\<lambda>color. if color = ''0c2238'' then Rejected NetworkError else Resolved (''<svg>'' @ color)),
            decodable = (\<lambda>svg. True), quotaExceeded = (\<lambda>st key v. False),
            arrival = (\<lambda>rowNum n. rev [0..<n]) \<rparr>"

text \<open>
  Variants of the first environment: a storage that is full, a service that never answers
  the colour \<^verbatim>\<open>0c2238\<close>, and a service whose answer is not an image.
\<close>

definition envFull :: env where
  "envFull = env0\<lparr> quotaExceeded := (\<lambda>st key v. True) \<rparr>"

definition envSlow :: env where
  "envSlow = env0\<lparr> fetch := (\<lambda>color. if color = ''0c2238'' then Pending else Resolved (''<svg>'' @ color)) \<rparr>"

definition envUndecodable :: env where
  "envUndecodable = env0\<lparr> fetch := (\<lambda>color. Resolved ''<html>''), decodable := (\<lambda>svg. False) \<rparr>"

text \<open>
  A uniformly coloured image of 5 by 4 pixels, the same image fully transparent, a
  half-transparent image of 2 by 2 pixels, an image of 4 by 6 pixels, one of 2 by 2 pixels
  with a black and a coloured row, and one narrower than a tile.
\<close>

definition img0 :: image where
  "img0 = \<lparr> width = 5, height = 4, pixelAt = (\<lambda>x y. (12, 34, 56, 255)) \<rparr>"

definition imgClear :: image where
  "imgClear = \<lparr> width = 5, height = 4, pixelAt = (\<lambda>x y. (12, 34, 56, 0)) \<rparr>"

definition imgHalf :: image where
  "imgHalf = \<lparr> width = 2, height = 2, pixelAt = (\<lambda>x y. (13, 35, 57, 128)) \<rparr>"

definition img1 :: image where
  "img1 = \<lparr> width = 4, height = 6, pixelAt = (\<lambda>x y. (of_nat x, of_nat y, 0, 255)) \<rparr>"

definition img2 :: image where
  "img2 = \<lparr> width = 2, height = 2, pixelAt = (\<lambda>x y. if y = 0 then (0, 0, 0, 255) else (12, 34, 56, 255)) \<rparr>"

definition imgSmall :: image where
  "imgSmall = \<lparr> width = 1, height = 4, pixelAt = (\<lambda>x y. (12, 34, 56, 255)) \<rparr>"

text \<open>
  An empty storage, one that holds a foreign key and an old glyph, and one that holds a
  blob that is not an image.
\<close>

definition world0 :: world where
  "world0 = \<lparr> storage = [], requests = [] \<rparr>"

definition worldOld :: world where
  "worldOld = \<lparr> storage = [(''theme'', ''dark''), (''mosaic-ffffff-2-2'', ''<svg>ffffff'')], requests = [] \<rparr>"

definition worldCached :: world where
  "worldCached = \<lparr> storage = [(''mosaic-0c2238-2-2'', ''<html>'')], requests = [] \<rparr>"

section \<open>Properties of the tile averager\<close>

lemma toString16_small: "n < 16 \<Longrightarrow> toString 16 n = [digitChar n]"
  by (subst toString.simps) simp

lemma toString16_two: "16 \<le> n \<Longrightarrow> n < 256 \<Longrightarrow> toString 16 n = [digitChar (n div 16), digitChar (n mod 16)]"
  by (subst toString.simps) (simp add: toString16_small less_mult_imp_div_less)

lemma digitChar_hex: "d < 16 \<Longrightarrow> digitChar d = ''0123456789abcdef'' ! d"
  unfolding digitChar_def
  by (simp add: nth_Cons' )

lemma toHex_hex2: "n < 256 \<Longrightarrow> toHex n = hex2 n"
proof (cases "n < 16")
  case True
  then show ?thesis
    by (simp add: toHex_def toString16_small hex2_def digitChar_hex)
next
  case False
  assume "n < 256"
  with False show ?thesis
    by (simp add: toHex_def toString16_two hex2_def digitChar_hex less_mult_imp_div_less)
qed

lemma totalColor_steps:
  "i mod 4 = 0 \<Longrightarrow> totalColor [r, g, b] v i = [r + unat v, g, b]"
  "i mod 4 = 1 \<Longrightarrow> totalColor [r, g, b] v i = [r, g + unat v, b]"
  "i mod 4 = 2 \<Longrightarrow> totalColor [r, g, b] v i = [r, g, b + unat v]"
  "i mod 4 = 3 \<Longrightarrow> totalColor [r, g, b] v i = [r, g, b]"
  by (simp_all add: totalColor_def)

lemma reduce_totalColor_pixels:
  "reduce totalColor (4 * k) (concat (map bytes ps)) [r, g, b] =
     [r + (\<Sum>p\<leftarrow>ps. unat (red p)), g + (\<Sum>p\<leftarrow>ps. unat (green p)), b + (\<Sum>p\<leftarrow>ps. unat (blue p))]"
proof (induction ps arbitrary: k r g b)
  case Nil
  then show ?case by simp
next
  case (Cons p ps)
  obtain pr pg pb pa where p: "p = (pr, pg, pb, pa)" by (cases p) auto
  have idx: "Suc (Suc (Suc (Suc (4 * k)))) = 4 * Suc k" by simp
  have m: "(4 * k) mod 4 = 0" "Suc (4 * k) mod 4 = 1" "Suc (Suc (4 * k)) mod 4 = 2" "Suc (Suc (Suc (4 * k))) mod 4 = 3"
    by presburger+
  have "reduce totalColor (4 * k) (concat (map bytes (p # ps))) [r, g, b]
      = reduce totalColor (4 * Suc k) (concat (map bytes ps)) [r + unat pr, g + unat pg, b + unat pb]"
    unfolding p using m by (simp add: totalColor_steps idx del: mult_Suc_right)
  also have "\<dots> = [r + unat pr + (\<Sum>p\<leftarrow>ps. unat (red p)), g + unat pg + (\<Sum>p\<leftarrow>ps. unat (green p)),
       b + unat pb + (\<Sum>p\<leftarrow>ps. unat (blue p))]"
    by (rule Cons.IH)
  finally show ?case by (simp add: p)
qed

lemma getImageData_pixels:
  "getImageData ctx sx sy sw sh =
     concat (map bytes (concat (map (\<lambda>j. map (\<lambda>i. readPixel ctx (sx + i) (sy + j)) [0..<sw]) [0..<sh])))"
  by (induction sh) (simp_all add: getImageData_def map_concat comp_def)

lemma tileColor_pixels:
  "tileColor e (concat (map bytes ps)) =
     toHex ((\<Sum>p\<leftarrow>ps. unat (red p)) div pixelsPerTile e) @
     toHex ((\<Sum>p\<leftarrow>ps. unat (green p)) div pixelsPerTile e) @
     toHex ((\<Sum>p\<leftarrow>ps. unat (blue p)) div pixelsPerTile e)"
  using reduce_totalColor_pixels [of 0 ps 0 0 0]
  by (simp add: tileColor_def average_def)

lemma channel_sum_bound:
  fixes ch :: "pixel \<Rightarrow> byte"
  shows "(\<Sum>p\<leftarrow>ps. unat (ch p)) \<le> 255 * length ps"
proof (induction ps)
  case Nil
  then show ?case by simp
next
  case (Cons p ps)
  have "unat (ch p) < 2 ^ LENGTH(8)" by (rule unsigned_less)
  then have "unat (ch p) \<le> 255" by simp
  with Cons show ?case by simp
qed

lemma channel_average_bound:
  fixes ch :: "pixel \<Rightarrow> byte"
  assumes "length ps = n" "0 < n"
  shows "(\<Sum>p\<leftarrow>ps. unat (ch p)) div n < 256"
proof -
  have "(\<Sum>p\<leftarrow>ps. unat (ch p)) \<le> 255 * n"
    using channel_sum_bound [of ch ps] assms by simp
  then have "(\<Sum>p\<leftarrow>ps. unat (ch p)) div n \<le> 255 * n div n"
    by (rule div_le_mono)
  with assms show ?thesis by simp
qed

lemma readPixel_baseLayer:
  "x < width c \<Longrightarrow> y < height c \<Longrightarrow>
   readPixel (baseLayer img c cv) x y = readBack (pixelAt img (offsetX c + x) (offsetY c + y))"
  by (simp add: readPixel_def baseLayer_def)

lemma tile_inside:
  fixes t :: nat
  assumes "x < n div t" "i < t"
  shows "t * x + i < n"
proof -
  have "t * x + i < t * Suc x" using assms by simp
  also have "\<dots> \<le> t * (n div t)" using assms by (intro mult_le_mono2) simp
  also have "\<dots> \<le> n" by simp
  finally show ?thesis .
qed

lemma sum_list_const: "(\<And>x. x \<in> set xs \<Longrightarrow> f x = (c::nat)) \<Longrightarrow> sum_list (map f xs) = c * length xs"
  by (induction xs) simp_all

lemma length_blockPixels: "length (blockPixels px x0 y0 w h) = w * h"
  by (simp add: blockPixels_def length_concat comp_def sum_list_const)

lemma sum_blockPixels:
  "(\<Sum>p\<leftarrow>blockPixels px x0 y0 w h. unat (ch p)) = channelSum ch px x0 y0 w h"
  by (induction h) (simp_all add: blockPixels_def channelSum_def comp_def)

lemma cell_data:
  assumes "x < width c div tw" "y < height c div th"
  shows "getImageData (baseLayer img c cv) (tw * x) (th * y) tw th =
         concat (map bytes (blockPixels (\<lambda>i j. readBack (pixelAt img i j))
                              (offsetX c + tw * x) (offsetY c + th * y) tw th))"
proof -
  have "readPixel (baseLayer img c cv) (tw * x + i) (th * y + j) =
        readBack (pixelAt img (offsetX c + tw * x + i) (offsetY c + th * y + j))"
    if "i < tw" "j < th" for i j
    using that assms by (simp add: readPixel_baseLayer tile_inside add.assoc)
  then have "map (\<lambda>j. map (\<lambda>i. readPixel (baseLayer img c cv) (tw * x + i) (th * y + j)) [0..<tw]) [0..<th] =
             map (\<lambda>j. map (\<lambda>i. readBack (pixelAt img (offsetX c + tw * x + i) (offsetY c + th * y + j))) [0..<tw]) [0..<th]"
    by (intro map_cong refl) simp_all
  then show ?thesis
    unfolding getImageData_pixels blockPixels_def by (rule arg_cong)
qed

lemma cell_color:
  assumes "0 < TILE_WIDTH e" "0 < TILE_HEIGHT e"
    and "x < width c div TILE_WIDTH e" "y < height c div TILE_HEIGHT e"
  shows "tileColor e (getImageData (baseLayer img c cv) (TILE_WIDTH e * x) (TILE_HEIGHT e * y)
                        (TILE_WIDTH e) (TILE_HEIGHT e)) =
         hex2 (channelSum red (\<lambda>i j. readBack (pixelAt img i j)) (offsetX c + TILE_WIDTH e * x) (offsetY c + TILE_HEIGHT e * y)
                 (TILE_WIDTH e) (TILE_HEIGHT e) div (TILE_WIDTH e * TILE_HEIGHT e)) @
         hex2 (channelSum green (\<lambda>i j. readBack (pixelAt img i j)) (offsetX c + TILE_WIDTH e * x) (offsetY c + TILE_HEIGHT e * y)
                 (TILE_WIDTH e) (TILE_HEIGHT e) div (TILE_WIDTH e * TILE_HEIGHT e)) @
         hex2 (channelSum blue (\<lambda>i j. readBack (pixelAt img i j)) (offsetX c + TILE_WIDTH e * x) (offsetY c + TILE_HEIGHT e * y)
                 (TILE_WIDTH e) (TILE_HEIGHT e) div (TILE_WIDTH e * TILE_HEIGHT e))"
proof -
  let ?ps = "blockPixels (\<lambda>i j. readBack (pixelAt img i j))
               (offsetX c + TILE_WIDTH e * x) (offsetY c + TILE_HEIGHT e * y)
               (TILE_WIDTH e) (TILE_HEIGHT e)"
  have len: "length ?ps = pixelsPerTile e" "0 < pixelsPerTile e"
    using assms by (simp_all add: length_blockPixels pixelsPerTile_def)
  have b: "(\<Sum>p\<leftarrow>?ps. unat (ch p)) div pixelsPerTile e < 256" for ch :: "pixel \<Rightarrow> byte"
    using len by (rule channel_average_bound)
  show ?thesis
    unfolding cell_data [OF assms(3,4)] tileColor_pixels
    using b [of red] b [of green] b [of blue]
    by (simp add: toHex_hex2 sum_blockPixels pixelsPerTile_def)
qed



lemma channelSum_const:
  assumes "\<And>i j. i < w \<Longrightarrow> j < h \<Longrightarrow> unat (ch (px (x0 + i) (y0 + j))) = v"
  shows "channelSum ch px x0 y0 w h = v * (w * h)"
proof -
  have "(\<Sum>i\<leftarrow>[0..<w]. unat (ch (px (x0 + i) (y0 + j)))) = v * w" if "j < h" for j
    using sum_list_const [of "[0..<w]" "\<lambda>i. unat (ch (px (x0 + i) (y0 + j)))" v] assms that
    by simp
  then have "channelSum ch px x0 y0 w h = (\<Sum>j\<leftarrow>[0..<h]. v * w)"
    unfolding channelSum_def by (intro arg_cong [where f = sum_list] map_cong refl) simp
  then show ?thesis by (simp add: sum_list_const)
qed


lemma roundDiv_255: "roundDiv (c * 255) 255 = c"
  by (simp add: roundDiv_def)

lemma premultiply_opaque: "premultiply c 255 = c" "unpremultiply c 255 = c"
proof -
  have u: "unat (255 :: byte) = 255" by simp
  have b: "unat c \<le> 255"
    using unsigned_less [of c, where 'a = nat] by simp
  show "premultiply c 255 = c"
    by (simp add: premultiply_def u roundDiv_255)
  show "unpremultiply c 255 = c"
    using b by (simp add: unpremultiply_def u roundDiv_255 min_def)
qed

lemma readBack_transparent: "alpha p = 0 \<Longrightarrow> readBack p = transparent"
  by (cases p) simp


lemma averageHex_uniform:
  assumes "0 < TILE_WIDTH e" "0 < TILE_HEIGHT e"
    and "\<And>i j. i < TILE_WIDTH e \<Longrightarrow> j < TILE_HEIGHT e \<Longrightarrow>
           unat (red (px (offsetX (clipImage e img) + TILE_WIDTH e * x + i)
                         (offsetY (clipImage e img) + TILE_HEIGHT e * y + j))) = r
         \<and> unat (green (px (offsetX (clipImage e img) + TILE_WIDTH e * x + i)
                           (offsetY (clipImage e img) + TILE_HEIGHT e * y + j))) = g
         \<and> unat (blue (px (offsetX (clipImage e img) + TILE_WIDTH e * x + i)
                          (offsetY (clipImage e img) + TILE_HEIGHT e * y + j))) = b"
  shows "averageHex e img px x y = hex2 r @ hex2 g @ hex2 b"
proof -
  let ?x0 = "offsetX (clipImage e img) + TILE_WIDTH e * x"
  let ?y0 = "offsetY (clipImage e img) + TILE_HEIGHT e * y"
  have r: "channelSum red px ?x0 ?y0 (TILE_WIDTH e) (TILE_HEIGHT e) = r * (TILE_WIDTH e * TILE_HEIGHT e)"
    by (rule channelSum_const) (simp add: assms(3))
  have g: "channelSum green px ?x0 ?y0 (TILE_WIDTH e) (TILE_HEIGHT e) = g * (TILE_WIDTH e * TILE_HEIGHT e)"
    by (rule channelSum_const) (simp add: assms(3))
  have b: "channelSum blue px ?x0 ?y0 (TILE_WIDTH e) (TILE_HEIGHT e) = b * (TILE_WIDTH e * TILE_HEIGHT e)"
    by (rule channelSum_const) (simp add: assms(3))
  show ?thesis
    using assms(1,2) by (simp add: averageHex_def Let_def r g b)
qed

lemma hex2_0c2238: "hex2 12 @ hex2 34 @ hex2 56 = ''0c2238''"
  by (simp add: hex2_def)

lemma uniform_color:
  assumes "0 < TILE_WIDTH e" "0 < TILE_HEIGHT e" "uniformBlock e img x y (12, 34, 56)"
  shows "blockAverageHex e img x y = ''0c2238''"
proof -
  have "averageHex e img (pixelAt img) x y = hex2 12 @ hex2 34 @ hex2 56"
    using assms(3) by (intro averageHex_uniform assms(1,2)) (simp add: uniformBlock_def Let_def)
  then show ?thesis
    by (simp only: blockAverageHex_def hex2_0c2238)
qed


lemma mapE_Inr: "(\<And>x. x \<in> set xs \<Longrightarrow> f x = Inr (g x)) \<Longrightarrow> mapE f xs = Inr (map g xs)"
  by (induction xs) simp_all

lemma quotient_clipped:
  "0 < t \<Longrightarrow> quotient (a - a mod t) t = Some (a div t)"
  by (simp add: quotient_def minus_mod_eq_mult_div)

lemma mosaicArray_default:
  assumes "0 < TILE_WIDTH e" "0 < TILE_HEIGHT e"
  shows "mosaicArray e ctx (width (clipImage e img)) (height (clipImage e img)) (TILE_WIDTH e) (TILE_HEIGHT e) =
     Inr (map (\<lambda>y. map (\<lambda>x. tileColor e (getImageData ctx (TILE_WIDTH e * x) (TILE_HEIGHT e * y)
                                              (TILE_WIDTH e) (TILE_HEIGHT e)))
                     [0..<width img div TILE_WIDTH e]) [0..<height img div TILE_HEIGHT e])"
  using assms by (simp add: mosaicArray_def clipImage_def quotient_clipped mapE_Inr)

lemma tiles_generateMosaic:
  "tiles (generateMosaic e img cv tw th w) =
     mosaicArray e (startCanvas e img cv) (width (clipImage e img)) (height (clipImage e img)) tw th"
  by (simp add: generateMosaic_def startCanvas_def Let_def split: sum.splits prod.splits)

lemma cell_readBack:
  assumes "0 < TILE_WIDTH e" "0 < TILE_HEIGHT e"
    and "x < width (clipImage e img) div TILE_WIDTH e"
    and "y < height (clipImage e img) div TILE_HEIGHT e"
  shows "tileColor e (getImageData (startCanvas e img cv) (TILE_WIDTH e * x) (TILE_HEIGHT e * y)
                        (TILE_WIDTH e) (TILE_HEIGHT e)) = readBackAverageHex e img x y"
  unfolding startCanvas_def cell_color [OF assms]
  by (simp add: readBackAverageHex_def averageHex_def Let_def)


text \<open>
  The bytes of the image and those the canvas reads back differ for pixels that are not
  opaque. The fully transparent image filled with (12, 34, 56) averages to \<^verbatim>\<open>0c2238\<close> over
  its own bytes and gives cells of \<^verbatim>\<open>000000\<close>; the image filled with (13, 35, 57) at alpha
  128 averages to \<^verbatim>\<open>0d2339\<close> over its own bytes and gives the cell \<^verbatim>\<open>0e243a\<close>.
\<close>

lemma readBack_half: "readBack (13, 35, 57, 128) = (14, 36, 58, 128)"
  by (simp add: premultiply_def unpremultiply_def roundDiv_def)

lemma translucent_tiles_read_back:
  "uniformBlock env0 imgClear 1 1 (12, 34, 56)"
  "blockAverageHex env0 imgClear 1 1 = ''0c2238''"
  "tiles (generate env0 imgClear world0) = Inr [[''000000'', ''000000''], [''000000'', ''000000'']]"
  "blockAverageHex env0 imgHalf 0 0 = ''0d2339''"
  "tiles (generate env0 imgHalf world0) = Inr [[''0e243a'']]"
proof -
  have pos: "0 < TILE_WIDTH env0" "0 < TILE_HEIGHT env0"
    by (simp_all add: env0_def)
  show u: "uniformBlock env0 imgClear 1 1 (12, 34, 56)"
    by (simp add: uniformBlock_def imgClear_def)
  show "blockAverageHex env0 imgClear 1 1 = ''0c2238''"
    using pos u by (rule uniform_color)
  show "tiles (generate env0 imgClear world0) = Inr [[''000000'', ''000000''], [''000000'', ''000000'']]"
    by code_simp
  have "averageHex env0 imgHalf (pixelAt imgHalf) 0 0 = hex2 13 @ hex2 35 @ hex2 57"
    by (intro averageHex_uniform pos) (simp add: imgHalf_def)
  then show "blockAverageHex env0 imgHalf 0 0 = ''0d2339''"
    by (simp add: blockAverageHex_def hex2_def)
  have "averageHex env0 imgHalf (\<lambda>i j. readBack (pixelAt imgHalf i j)) 0 0 = hex2 14 @ hex2 36 @ hex2 58"
    by (intro averageHex_uniform pos) (simp add: imgHalf_def readBack_half del: readBack.simps)
  then have c: "readBackAverageHex env0 imgHalf 0 0 = ''0e243a''"
    by (simp add: readBackAverageHex_def hex2_def)
  have "tiles (generate env0 imgHalf world0) =
      Inr (map (\<lambda>y. map (\<lambda>x. tileColor env0 (getImageData (startCanvas env0 imgHalf blankCanvas)
                                       (TILE_WIDTH env0 * x) (TILE_HEIGHT env0 * y)
                                       (TILE_WIDTH env0) (TILE_HEIGHT env0)))
                     [0..<width imgHalf div TILE_WIDTH env0]) [0..<height imgHalf div TILE_HEIGHT env0])"
    unfolding generate_def tiles_generateMosaic
    using pos by (rule mosaicArray_default)
  moreover have "width imgHalf div TILE_WIDTH env0 = 1" "height imgHalf div TILE_HEIGHT env0 = 1"
    by (simp_all add: imgHalf_def env0_def)
  moreover have "tileColor env0 (getImageData (startCanvas env0 imgHalf blankCanvas)
                                       (TILE_WIDTH env0 * 0) (TILE_HEIGHT env0 * 0)
                                       (TILE_WIDTH env0) (TILE_HEIGHT env0)) = ''0e243a''"
    using cell_readBack [of env0 0 imgHalf 0 blankCanvas] c pos
    by (simp add: clipImage_def imgHalf_def env0_def)
  ultimately show "tiles (generate env0 imgHalf world0) = Inr [[''0e243a'']]"
    by simp
qed

section \<open>Properties of the glyph cache and the glyph resolver\<close>

lemma fold_removeItem: "fold removeItem arr st = filter (\<lambda>(k, v). k \<notin> set arr) st"
proof (induction arr arbitrary: st)
  case Nil
  then show ?case by simp
next
  case (Cons a arr)
  show ?case
    by (simp add: Cons.IH) (auto simp add: removeItem_def intro: filter_cong)
qed

lemma clearCachedSvgs_filter:
  "clearCachedSvgs st = filter (\<lambda>(k, v). \<not> startsWith k ''mosaic-'') st"
  unfolding clearCachedSvgs_def Let_def fold_removeItem
  by (rule filter_cong) (auto simp: image_iff)

lemma clearCachedSvgs_none_left:
  "(k, v) \<in> set (clearCachedSvgs st) \<Longrightarrow> \<not> startsWith k ''mosaic-''"
  by (auto simp add: clearCachedSvgs_filter)

lemma startsWith_storageKey: "startsWith (storageKey e color) ''mosaic-''"
  by (simp add: startsWith_def storageKey_def)

lemma getItem_cleared: "getItem (clearCachedSvgs st) (storageKey e color) = None"
proof (cases "getItem (clearCachedSvgs st) (storageKey e color)")
  case None
  then show ?thesis .
next
  case (Some v)
  then have "(storageKey e color, v) \<in> set (clearCachedSvgs st)"
    unfolding getItem_def by (rule map_of_SomeD)
  then show ?thesis
    using clearCachedSvgs_none_left startsWith_storageKey by blast
qed

lemma getItem_store: "getItem (store key v st) key = Some v"
  by (induction st) (auto simp add: getItem_def)

lemma resolve_miss:
  assumes "\<not> truthy (getItem (storage w) (storageKey e color))"
  shows "resolve e color w = fetched e (storageKey e color) color (w\<lparr>requests := requests w @ [color]\<rparr>)"
  using assms by (simp add: resolve_def requestSVG_def Let_def)

lemma resolve_hit:
  assumes "getItem (storage w) (storageKey e color) = Some svg" "svg \<noteq> []"
  shows "resolve e color w = (loadSVGtoIMG e svg, w)"
  using assms by (simp add: resolve_def requestSVG_def Let_def)

lemma loadSVGtoIMG_never_rejects: "loadSVGtoIMG e svg \<noteq> Rejected err"
  by (simp add: loadSVGtoIMG_def)

lemma requestSVG_storage: "storage (snd (requestSVG e color w)) = storage w"
  by (simp add: requestSVG_def Let_def)

lemma requestSVG_requests:
  "requests (snd (requestSVG e color w)) =
     requests w @ (if missing e (storage w) color then [color] else [])"
  by (simp add: requestSVG_def Let_def missing_def)

lemma requestSVG_miss:
  "missing e (storage w) color \<Longrightarrow> fst (requestSVG e color w) = fetched e (storageKey e color) color"
  by (simp add: requestSVG_def Let_def missing_def)

lemma requestSVG_hit:
  "\<not> missing e (storage w) color \<Longrightarrow>
   fst (requestSVG e color w) = (\<lambda>w'. (loadSVGtoIMG e (the (getItem (storage w) (storageKey e color))), w'))"
  by (simp add: requestSVG_def Let_def missing_def)

lemma fetched_requests: "requests (snd (fetched e key color w)) = requests w"
  by (simp add: fetched_def cacheAndLoad_def split: promise.splits sum.splits)

lemma fetched_rejects_iff: "fst (fetched e key color w) = Rejected err \<longleftrightarrow> fetch e color = Rejected err"
  by (auto simp add: fetched_def cacheAndLoad_def loadSVGtoIMG_def split: promise.splits sum.splits)

lemma fetched_rejected: "fetch e color = Rejected err \<Longrightarrow> fetched e key color w = (Rejected err, w)"
  by (simp add: fetched_def)


lemma requestSVG_same_storage:
  "storage w' = storage w \<Longrightarrow> fst (requestSVG e color w') = fst (requestSVG e color w)"
  by (simp add: requestSVG_def Let_def)

lemma fetched_outcome:
  "fst (fetched e key color w) =
     (case fetch e color of
        Resolved svg \<Rightarrow> loadSVGtoIMG e svg
      | Rejected err \<Rightarrow> Rejected err
      | Pending \<Rightarrow> Pending)"
  by (simp add: fetched_def cacheAndLoad_def split: promise.splits sum.splits)

lemma requestSVG_outcome:
  "fst (fst (requestSVG e color w0) w) = outcomeOf e (storage w0) color"
  by (cases "missing e (storage w0) color")
     (simp_all add: requestSVG_miss requestSVG_hit fetched_outcome outcomeOf_def)

lemma requestSVG_settle_requests:
  "requests (snd (fst (requestSVG e color w0) w)) = requests w"
  by (cases "missing e (storage w0) color")
     (simp_all add: requestSVG_miss requestSVG_hit fetched_requests)

lemma resolve_outcome: "fst (resolve e color w) = outcomeOf e (storage w) color"
  by (simp add: resolve_def split_beta requestSVG_outcome)

lemma outcomeOf_Rejected:
  "outcomeOf e st color = Rejected err \<longleftrightarrow> missing e st color \<and> fetch e color = Rejected err"
  by (auto simp add: outcomeOf_def loadSVGtoIMG_def split: promise.splits)




lemma cacheWithin_mono: "cacheWithin e colors st \<Longrightarrow> colors \<subseteq> colors' \<Longrightarrow> cacheWithin e colors' st"
  unfolding cacheWithin_def by fastforce




section \<open>Properties of the row renderer\<close>


lemma requestAll_requests:
  "requests (snd (requestAll e tileRow w)) = requests w @ filter (missing e (storage w)) tileRow"
  by (induction tileRow arbitrary: w)
     (simp_all add: split_beta Let_def requestSVG_storage requestSVG_requests)

lemma requestAll_map:
  "storage w' = storage w \<Longrightarrow>
   fst (requestAll e tileRow w') = map (\<lambda>color. fst (requestSVG e color w)) tileRow"
proof (induction tileRow arbitrary: w')
  case Nil
  then show ?case by simp
next
  case (Cons c cs)
  have "storage (snd (requestSVG e c w')) = storage w"
    using Cons.prems by (simp add: requestSVG_storage)
  then have "fst (requestAll e cs (snd (requestSVG e c w'))) = map (\<lambda>color. fst (requestSVG e color w)) cs"
    by (rule Cons.IH)
  moreover have "fst (requestSVG e c w') = fst (requestSVG e c w)"
    using Cons.prems by (rule requestSVG_same_storage)
  ultimately show ?case by (simp add: split_beta Let_def)
qed

lemma length_requestAll: "length (fst (requestAll e tileRow w)) = length tileRow"
  by (simp add: requestAll_map [OF refl])

lemma settleOrder_bound: "i \<in> set (settleOrder e rowNum n) \<Longrightarrow> i < n"
  by (auto simp add: settleOrder_def Let_def)

lemma settleOrder_all: "i < n \<Longrightarrow> i \<in> set (settleOrder e rowNum n)"
  by (auto simp add: settleOrder_def Let_def)

lemma settleOrder_0: "settleOrder e rowNum 0 = []"
  by (simp add: settleOrder_def)

lemma settleIn_row:
  assumes "\<And>i. i \<in> set order \<Longrightarrow> i < length tileRow"
  shows "fst (settleIn (map (\<lambda>color. fst (requestSVG e color w0)) tileRow) order w) =
           map (\<lambda>i. (i, outcomeOf e (storage w0) (tileRow ! i))) order"
    and "requests (snd (settleIn (map (\<lambda>color. fst (requestSVG e color w0)) tileRow) order w)) =
           requests w"
  using assms
proof (induction order arbitrary: w)
  case Nil
  { case 1 show ?case by simp }
  { case 2 show ?case by simp }
next
  case (Cons i order)
  { case 1
    then have "i < length tileRow" by simp
    with 1 Cons.IH(1) show ?case
      by (simp add: split_beta Let_def requestSVG_outcome) }
  { case 2
    then have "i < length tileRow" by simp
    with 2 Cons.IH(2) show ?case
      by (simp add: split_beta Let_def requestSVG_settle_requests) }
qed


lemma byColumn_row:
  assumes "\<And>i. i < n \<Longrightarrow> i \<in> set order"
  shows "byColumn n (map (\<lambda>i. (i, f i)) order) = map f [0..<n]"
  unfolding byColumn_def using assms
  by (intro map_cong refl) (simp add: map_of_map_restrict restrict_map_def)

lemma firstRejected_None: "firstRejected ps = None \<longleftrightarrow> (\<forall>err. Rejected err \<notin> set ps)"
  by (induction ps rule: firstRejected.induct) auto

lemma firstRejected_Some: "firstRejected ps = Some err \<Longrightarrow> Rejected err \<in> set ps"
  by (induction ps rule: firstRejected.induct) auto

lemma inColumns_map_Resolved: "inColumns (map Resolved vs) = Resolved vs"
  by (induction vs) simp_all

lemma inColumns_Resolved_D: "inColumns ps = Resolved vs \<Longrightarrow> ps = map Resolved vs"
proof (induction ps arbitrary: vs rule: inColumns.induct)
  case 1
  then show ?case by simp
next
  case (2 err ps)
  then show ?case by simp
next
  case (3 ps)
  then show ?case by (simp split: promise.splits)
next
  case (4 v ps)
  from "4.prems" obtain us where us: "inColumns ps = Resolved us" "vs = v # us"
    by (auto split: promise.splits)
  from "4.IH" [OF us(1)] us(2) show ?case by simp
qed

lemma inColumns_Resolved: "inColumns ps = Resolved vs \<longleftrightarrow> ps = map Resolved vs"
  using inColumns_Resolved_D inColumns_map_Resolved by blast

lemma inColumns_Rejected: "inColumns ps = Rejected err \<Longrightarrow> Rejected err \<in> set ps"
  by (induction ps rule: inColumns.induct) (auto split: promise.splits)

lemma map_over_nth: "map (\<lambda>i. f (xs ! i)) [0..<length xs] = map f xs"
  by (rule nth_equalityI) simp_all

lemma rowPromise_unfold:
  "rowPromise e st rowNum tileRow =
     (case firstRejected (map (\<lambda>i. outcomeOf e st (tileRow ! i)) (settleOrder e rowNum (length tileRow))) of
        Some err \<Rightarrow> Rejected err
      | None \<Rightarrow> inColumns (map (outcomeOf e st) tileRow))"
proof -
  have "byColumn (length tileRow)
          (map (\<lambda>i. (i, outcomeOf e st (tileRow ! i))) (settleOrder e rowNum (length tileRow))) =
        map (\<lambda>i. outcomeOf e st (tileRow ! i)) [0..<length tileRow]"
    by (rule byColumn_row) (rule settleOrder_all)
  also have "\<dots> = map (outcomeOf e st) tileRow"
    by (rule map_over_nth)
  finally show ?thesis
    unfolding rowPromise_def promiseAll_def by (simp add: comp_def cong: option.case_cong)
qed

lemma rowPromise_Rejected:
  assumes "rowPromise e st rowNum tileRow = Rejected err"
  shows "\<exists>color\<in>set tileRow. outcomeOf e st color = Rejected err"
proof (cases "firstRejected (map (\<lambda>i. outcomeOf e st (tileRow ! i)) (settleOrder e rowNum (length tileRow)))")
  case None
  with assms have "inColumns (map (outcomeOf e st) tileRow) = Rejected err"
    by (simp add: rowPromise_unfold)
  then have "Rejected err \<in> set (map (outcomeOf e st) tileRow)" by (rule inColumns_Rejected)
  then show ?thesis by auto
next
  case (Some err')
  with assms have "err' = err" by (simp add: rowPromise_unfold)
  with Some have "Rejected err \<in> set (map (\<lambda>i. outcomeOf e st (tileRow ! i)) (settleOrder e rowNum (length tileRow)))"
    using firstRejected_Some by fastforce
  then obtain i where "i \<in> set (settleOrder e rowNum (length tileRow))" "outcomeOf e st (tileRow ! i) = Rejected err"
    by auto
  then show ?thesis using settleOrder_bound nth_mem by metis
qed

lemma rowPromise_rejects:
  assumes "color \<in> set tileRow" "outcomeOf e st color = Rejected err"
  shows "\<exists>err'. rowPromise e st rowNum tileRow = Rejected err'"
proof -
  from assms(1) obtain i where i: "i < length tileRow" "tileRow ! i = color"
    by (auto simp add: in_set_conv_nth)
  then have "Rejected err \<in> set (map (\<lambda>i. outcomeOf e st (tileRow ! i)) (settleOrder e rowNum (length tileRow)))"
    using assms(2) settleOrder_all [of i "length tileRow" e rowNum] by force
  then obtain err' where "firstRejected (map (\<lambda>i. outcomeOf e st (tileRow ! i)) (settleOrder e rowNum (length tileRow))) = Some err'"
    using firstRejected_None by (metis option.exhaust)
  then show ?thesis by (simp add: rowPromise_unfold)
qed

lemma succeeds_iff: "succeeds e st color \<longleftrightarrow> (\<exists>g. outcomeOf e st color = Resolved g)"
  by (simp add: succeeds_def split: promise.splits)

lemma rowPromise_Resolved:
  "rowPromise e st rowNum tileRow = Resolved svgs \<longleftrightarrow>
     (\<forall>color\<in>set tileRow. succeeds e st color) \<and> svgs = rowGlyphs e st tileRow"
proof
  assume r: "rowPromise e st rowNum tileRow = Resolved svgs"
  then have "inColumns (map (outcomeOf e st) tileRow) = Resolved svgs"
    by (simp add: rowPromise_unfold split: option.splits)
  then have m: "map (outcomeOf e st) tileRow = map Resolved svgs"
    by (simp add: inColumns_Resolved)
  then have len: "length svgs = length tileRow"
    using length_map by metis
  have each: "outcomeOf e st (tileRow ! i) = Resolved (svgs ! i)" if "i < length tileRow" for i
    using that len nth_map [of i tileRow "outcomeOf e st"] nth_map [of i svgs Resolved] m by simp
  have "\<forall>color\<in>set tileRow. succeeds e st color"
    using each by (auto simp add: in_set_conv_nth succeeds_iff)
  moreover have "svgs = rowGlyphs e st tileRow"
    using len each by (intro nth_equalityI) (simp_all add: rowGlyphs_def)
  ultimately show "(\<forall>color\<in>set tileRow. succeeds e st color) \<and> svgs = rowGlyphs e st tileRow" ..
next
  assume a: "(\<forall>color\<in>set tileRow. succeeds e st color) \<and> svgs = rowGlyphs e st tileRow"
  then have m: "map (outcomeOf e st) tileRow = map Resolved svgs"
    by (auto simp add: rowGlyphs_def succeeds_iff)
  then have "\<forall>err. Rejected err \<notin> set (map (\<lambda>i. outcomeOf e st (tileRow ! i)) (settleOrder e rowNum (length tileRow)))"
    using a settleOrder_bound [of _ e rowNum "length tileRow"] by (auto simp add: succeeds_iff) (metis nth_mem promise.distinct(1))
  then have "firstRejected (map (\<lambda>i. outcomeOf e st (tileRow ! i)) (settleOrder e rowNum (length tileRow))) = None"
    by (simp add: firstRejected_None)
  with m show "rowPromise e st rowNum tileRow = Resolved svgs"
    by (simp add: rowPromise_unfold inColumns_Resolved)
qed

lemma renderRow_unfold:
  "renderRow e tileRow rowNum w ctx =
     (let w2 = snd (settleIn (map (\<lambda>color. fst (requestSVG e color w)) tileRow)
                      (settleOrder e rowNum (length tileRow)) (snd (requestAll e tileRow w)))
      in case rowPromise e (storage w) rowNum tileRow of
           Resolved svgs \<Rightarrow> (Resolved (), w2, reduce (drawTile e rowNum) 0 svgs ctx)
         | Rejected err \<Rightarrow> (Rejected err, w2, ctx)
         | Pending \<Rightarrow> (Pending, w2, ctx))"
proof -
  have ds: "fst (requestAll e tileRow w) = map (\<lambda>color. fst (requestSVG e color w)) tileRow"
    by (rule requestAll_map [OF refl])
  have "fst (settleIn (map (\<lambda>color. fst (requestSVG e color w)) tileRow)
               (settleOrder e rowNum (length tileRow)) (snd (requestAll e tileRow w))) =
        map (\<lambda>i. (i, outcomeOf e (storage w) (tileRow ! i))) (settleOrder e rowNum (length tileRow))"
    by (rule settleIn_row(1)) (rule settleOrder_bound)
  then show ?thesis
    unfolding renderRow_def split_beta Let_def ds length_map rowPromise_def by simp
qed

section \<open>Properties of row rendering and of the mosaic orchestrator\<close>

lemma renderRow_fst:
  "fst (renderRow e tileRow rowNum w ctx) =
     (case rowPromise e (storage w) rowNum tileRow of
        Resolved svgs \<Rightarrow> Resolved ()
      | Rejected err \<Rightarrow> Rejected err
      | Pending \<Rightarrow> Pending)"
  by (simp add: renderRow_unfold Let_def split: promise.splits)

lemma renderRow_resolved_iff:
  "fst (renderRow e tileRow rowNum w ctx) = Resolved () \<longleftrightarrow>
     (\<forall>color\<in>set tileRow. succeeds e (storage w) color)"
proof -
  have "fst (renderRow e tileRow rowNum w ctx) = Resolved () \<longleftrightarrow>
        (\<exists>svgs. rowPromise e (storage w) rowNum tileRow = Resolved svgs)"
    by (simp add: renderRow_fst split: promise.splits)
  then show ?thesis by (simp add: rowPromise_Resolved)
qed

lemma renderRow_unresolved_canvas:
  "fst (renderRow e tileRow rowNum w ctx) \<noteq> Resolved () \<Longrightarrow>
   snd (snd (renderRow e tileRow rowNum w ctx)) = ctx"
  by (simp add: renderRow_unfold Let_def split: promise.splits)

lemma renderRow_fulfilled_canvas:
  assumes "\<forall>color\<in>set tileRow. succeeds e (storage w) color"
  shows "snd (snd (renderRow e tileRow rowNum w ctx)) =
           reduce (drawTile e rowNum) 0 (rowGlyphs e (storage w) tileRow) ctx"
proof -
  have "rowPromise e (storage w) rowNum tileRow = Resolved (rowGlyphs e (storage w) tileRow)"
    using assms by (simp add: rowPromise_Resolved)
  then show ?thesis by (simp add: renderRow_unfold Let_def)
qed

lemma renderRow_world:
  "fst (snd (renderRow e tileRow rowNum w ctx)) =
     snd (settleIn (map (\<lambda>color. fst (requestSVG e color w)) tileRow)
            (settleOrder e rowNum (length tileRow)) (snd (requestAll e tileRow w)))"
  by (simp add: renderRow_unfold Let_def split: promise.splits)

lemma renderRow_requests:
  "requests (fst (snd (renderRow e tileRow rowNum w ctx))) =
     requests w @ filter (missing e (storage w)) tileRow"
  unfolding renderRow_world
  by (subst settleIn_row(2)) (simp_all add: settleOrder_bound requestAll_requests)


lemma renderRow_rejected_cause:
  assumes "fst (renderRow e tileRow rowNum w ctx) = Rejected err"
  shows "\<exists>color\<in>set tileRow. fetch e color = Rejected err"
proof -
  have "rowPromise e (storage w) rowNum tileRow = Rejected err"
    using assms by (simp add: renderRow_fst split: promise.splits)
  then obtain color where "color \<in> set tileRow" "outcomeOf e (storage w) color = Rejected err"
    using rowPromise_Rejected by blast
  then show ?thesis by (auto simp add: outcomeOf_Rejected)
qed

lemma renderRow_rejects:
  assumes "color \<in> set tileRow" "missing e (storage w) color" "fetch e color = Rejected err"
  shows "\<exists>err'. fst (renderRow e tileRow rowNum w ctx) = Rejected err'"
proof -
  have "outcomeOf e (storage w) color = Rejected err"
    using assms(2,3) by (simp add: outcomeOf_Rejected)
  with assms(1) obtain err' where "rowPromise e (storage w) rowNum tileRow = Rejected err'"
    using rowPromise_rejects by blast
  then show ?thesis by (simp add: renderRow_fst)
qed

lemma renderRow_Nil: "renderRow e [] rowNum w ctx = (Resolved (), w, ctx)"
  by (simp add: renderRow_def settleOrder_0 promiseAll_def byColumn_def)

lemma ops_drawTile:
  "ops (drawTile e rowNum ctx svg colNum) =
     ops ctx @ [ClearRect (colNum * TILE_WIDTH e) (rowNum * TILE_HEIGHT e) (TILE_WIDTH e) (TILE_HEIGHT e),
                DrawImage svg (colNum * TILE_WIDTH e) (rowNum * TILE_HEIGHT e)]"
  by (simp add: drawTile_def)

lemma drawTile_ops_from:
  "ops (reduce (drawTile e rowNum) i svgs ctx) =
     ops ctx @ concat (map (\<lambda>k. [ClearRect ((i + k) * TILE_WIDTH e) (rowNum * TILE_HEIGHT e)
                                    (TILE_WIDTH e) (TILE_HEIGHT e),
                                  DrawImage (svgs ! k) ((i + k) * TILE_WIDTH e) (rowNum * TILE_HEIGHT e)])
                          [0..<length svgs])"
proof (induction svgs arbitrary: i ctx)
  case Nil
  then show ?case by simp
next
  case (Cons g gs)
  have up: "[0..<length (g # gs)] = 0 # map Suc [0..<length gs]"
    by (simp add: upt_conv_Cons map_Suc_upt del: upt_Suc)
  have "ops (reduce (drawTile e rowNum) i (g # gs) ctx) =
        ops (drawTile e rowNum ctx g i) @
        concat (map (\<lambda>k. [ClearRect ((Suc i + k) * TILE_WIDTH e) (rowNum * TILE_HEIGHT e)
                                    (TILE_WIDTH e) (TILE_HEIGHT e),
                           DrawImage (gs ! k) ((Suc i + k) * TILE_WIDTH e) (rowNum * TILE_HEIGHT e)])
                    [0..<length gs])"
    by (simp add: Cons.IH del: mult_Suc add_Suc)
  then show ?case
    unfolding up by (simp add: ops_drawTile comp_def del: mult_Suc upt_Suc)
qed

lemma drawTile_ops: "ops (reduce (drawTile e rowNum) 0 svgs ctx) = ops ctx @ rowTiles e rowNum svgs"
  using drawTile_ops_from [of e rowNum 0 svgs ctx] by (simp add: rowTiles_def)



lemma renderRow_fulfilled_ops:
  assumes "\<forall>color\<in>set tileRow. succeeds e (storage w) color"
  shows "ops (snd (snd (renderRow e tileRow rowNum w ctx))) =
           ops ctx @ rowTiles e rowNum (rowGlyphs e (storage w) tileRow)"
  by (simp add: renderRow_fulfilled_canvas [OF assms] drawTile_ops)


lemma reduce_append:
  "reduce f n (xs @ ys) acc = reduce f (n + length xs) ys (reduce f n xs acc)"
  by (induction xs arbitrary: n acc) simp_all

lemma thenRenderRow_passes:
  "p \<noteq> Resolved () \<Longrightarrow> thenRenderRow e (p, w, ctx) row rowNum = (p, w, ctx)"
  by (cases p) simp_all

lemma reduce_thenRenderRow_passes:
  "p \<noteq> Resolved () \<Longrightarrow> reduce (thenRenderRow e) n rows (p, w, ctx) = (p, w, ctx)"
  by (induction rows arbitrary: n) (simp_all add: thenRenderRow_passes)



lemma renderMosaic_stops:
  assumes "fst (renderMosaic e pre w ctx) = Resolved ()"
    and "fst (renderRow e row (length pre) (fst (snd (renderMosaic e pre w ctx)))
               (snd (snd (renderMosaic e pre w ctx)))) \<noteq> Resolved ()"
  shows "renderMosaic e (pre @ row # rest) w ctx =
         renderRow e row (length pre) (fst (snd (renderMosaic e pre w ctx)))
               (snd (snd (renderMosaic e pre w ctx)))"
proof -
  obtain p wk ck where r: "renderMosaic e pre w ctx = (p, wk, ck)"
    by (cases "renderMosaic e pre w ctx") auto
  obtain p' w' c' where r': "renderRow e row (length pre) wk ck = (p', w', c')"
    by (cases "renderRow e row (length pre) wk ck") auto
  have "reduce (thenRenderRow e) 0 (pre @ row # rest) (Resolved (), w, ctx) =
        reduce (thenRenderRow e) (Suc (length pre)) rest (thenRenderRow e (p, wk, ck) row (length pre))"
    using r by (simp add: reduce_append renderMosaic_def)
  also have "\<dots> = (p', w', c')"
    using assms r r' by (simp add: reduce_thenRenderRow_passes)
  finally show ?thesis
    using r r' by (simp add: renderMosaic_def)
qed

lemma reduce_empty_rows:
  "(\<And>row. row \<in> set rows \<Longrightarrow> row = []) \<Longrightarrow>
   reduce (thenRenderRow e) n rows (Resolved (), w, ctx) = (Resolved (), w, ctx)"
proof (induction rows arbitrary: n)
  case Nil
  then show ?case by simp
next
  case (Cons row rows)
  have "row = []" using Cons.prems by simp
  moreover have "reduce (thenRenderRow e) (Suc n) rows (Resolved (), w, ctx) = (Resolved (), w, ctx)"
    using Cons.prems by (intro Cons.IH) simp
  ultimately show ?case by (simp add: renderRow_Nil)
qed

lemma promise_unit_case:
  "(case p of Resolved u \<Rightarrow> Resolved () | Rejected err \<Rightarrow> Rejected err | Pending \<Rightarrow> Pending) = p"
  by (cases p) simp_all

lemma generateMosaic_rendered:
  assumes "tiles (generateMosaic e img cv tw th w) = Inr mosaic"
  shows "returned (generateMosaic e img cv tw th w) =
           Inr (fst (renderMosaic e mosaic (startWorld w) (startCanvas e img cv)))"
    and "after (generateMosaic e img cv tw th w) =
           fst (snd (renderMosaic e mosaic (startWorld w) (startCanvas e img cv)))"
    and "surface (generateMosaic e img cv tw th w) =
           snd (snd (renderMosaic e mosaic (startWorld w) (startCanvas e img cv)))"
  using assms unfolding tiles_generateMosaic
  by (simp_all add: generateMosaic_def startCanvas_def startWorld_def Let_def split_beta promise_unit_case)

lemma generateMosaic_threw:
  assumes "tiles (generateMosaic e img cv tw th w) = Inl err"
  shows "returned (generateMosaic e img cv tw th w) = Inl err"
    and "after (generateMosaic e img cv tw th w) = startWorld w"
    and "surface (generateMosaic e img cv tw th w) = startCanvas e img cv"
  using assms unfolding tiles_generateMosaic
  by (simp_all add: generateMosaic_def startCanvas_def startWorld_def Let_def split_beta)





lemma average_collaborators:
  "average (e\<lparr>fetch := f, decodable := d, quotaExceeded := q, arrival := a\<rparr>) = average e"
  by (rule ext) (simp add: average_def pixelsPerTile_def)

lemma tileColor_collaborators:
  "tileColor (e\<lparr>fetch := f, decodable := d, quotaExceeded := q, arrival := a\<rparr>) = tileColor e"
  by (rule ext) (simp add: tileColor_def average_collaborators)

lemma mosaicArray_collaborators:
  "mosaicArray (e\<lparr>fetch := f, decodable := d, quotaExceeded := q, arrival := a\<rparr>) ctx wd ht tw th = mosaicArray e ctx wd ht tw th"
  by (simp add: mosaicArray_def tileColor_collaborators cong: sum.case_cong)






section \<open>Tile colours\<close>



section \<open>Clipping\<close>

text \<open>
  Claim C5. With positive tile constants, \<^verbatim>\<open>clipImage\<close> returns the width and height
  rounded down to multiples of the tile size and offsets of half the remainders, rounded
  down; the returned width and height are multiples of the tile width and height; and an
  image whose sides are already multiples is returned unclipped with offsets 0. The function
  reads the image's width and height only and changes nothing.
\<close>

theorem clipImage_spec:
  assumes "0 < TILE_WIDTH e" and "0 < TILE_HEIGHT e"
  shows "clipImage e img =
           \<lparr> width = width img - width img mod TILE_WIDTH e,
             height = height img - height img mod TILE_HEIGHT e,
             offsetX = (width img mod TILE_WIDTH e) div 2,
             offsetY = (height img mod TILE_HEIGHT e) div 2 \<rparr>
       \<and> TILE_WIDTH e dvd width (clipImage e img)
       \<and> TILE_HEIGHT e dvd height (clipImage e img)
       \<and> (TILE_WIDTH e dvd width img \<and> TILE_HEIGHT e dvd height img \<longrightarrow>
            clipImage e img = \<lparr> width = width img, height = height img, offsetX = 0, offsetY = 0 \<rparr>)"
  by (auto simp add: clipImage_def minus_mod_eq_mult_div)

text \<open>
  A 5 by 4 image loses one column; a 4 by 6 image is left as it is.
\<close>

theorem clipImage_spec_witness:
  "0 < TILE_WIDTH env0 \<and> 0 < TILE_HEIGHT env0
   \<and> clipImage env0 img0 = \<lparr> width = 4, height = 4, offsetX = 0, offsetY = 0 \<rparr>
   \<and> TILE_WIDTH env0 dvd width img1 \<and> TILE_HEIGHT env0 dvd height img1
   \<and> clipImage env0 img1 = \<lparr> width = 4, height = 6, offsetX = 0, offsetY = 0 \<rparr>"
  using clipImage_spec [of env0 img0] clipImage_spec [of env0 img1]
  by (simp add: env0_def img0_def img1_def)

section \<open>The order of the rows\<close>



section \<open>Rows that fail\<close>

text \<open>
  Claim C3. A resolution run on the world \<open>w\<close> ends in the state \<open>outcomeOf\<close> gives
  for the storage of \<open>w\<close>. When the resolution of one colour of a row does not succeed,
  because it is rejected or because it never settles, the row's promise is not fulfilled
  and the canvas is left exactly as it was: no tile of the row is drawn. When every
  resolution of the row succeeds, the promise is fulfilled and the canvas gains exactly
  the tiles of the row. In every case each colour of the row that missed the cache was
  requested once and no more. When the lookup of a colour of the row is rejected, the
  row's promise is rejected with the rejection of one of the row's lookups; when that row
  is a row of the grid of a \<^verbatim>\<open>generateMosaic\<close> call and the rows before it were
  fulfilled, the call's promise is rejected with the same error, and the canvas and the
  world are those the row left: no later row is requested or drawn.
\<close>

theorem no_partial_row:
  "fst (resolve e color w) = outcomeOf e (storage w) color
   \<and> ((\<exists>c\<in>set tileRow. \<not> succeeds e (storage w) c) \<longrightarrow>
         fst (renderRow e tileRow rowNum w ctx) \<noteq> Resolved ()
       \<and> snd (snd (renderRow e tileRow rowNum w ctx)) = ctx)
   \<and> ((\<forall>c\<in>set tileRow. succeeds e (storage w) c) \<longrightarrow>
         fst (renderRow e tileRow rowNum w ctx) = Resolved ()
       \<and> ops (snd (snd (renderRow e tileRow rowNum w ctx))) =
           ops ctx @ rowTiles e rowNum (rowGlyphs e (storage w) tileRow))
   \<and> requests (fst (snd (renderRow e tileRow rowNum w ctx))) =
        requests w @ filter (missing e (storage w)) tileRow
   \<and> (color \<in> set tileRow \<and> missing e (storage w) color \<and> fetch e color = Rejected err \<longrightarrow>
        (\<exists>err'. fst (renderRow e tileRow rowNum w ctx) = Rejected err'
           \<and> (\<exists>c\<in>set tileRow. fetch e c = Rejected err')
           \<and> (tiles (generateMosaic e img cv tw th w0) = Inr (pre @ tileRow # rest)
              \<and> renderMosaic e pre (startWorld w0) (startCanvas e img cv) = (Resolved (), w, ctx)
              \<and> rowNum = length pre \<longrightarrow>
                returned (generateMosaic e img cv tw th w0) = Inr (Rejected err')
              \<and> surface (generateMosaic e img cv tw th w0) = ctx
              \<and> after (generateMosaic e img cv tw th w0) = fst (snd (renderRow e tileRow rowNum w ctx)))))"
proof -
  have a: "fst (renderRow e tileRow rowNum w ctx) \<noteq> Resolved ()
       \<and> snd (snd (renderRow e tileRow rowNum w ctx)) = ctx"
    if "\<exists>c\<in>set tileRow. \<not> succeeds e (storage w) c"
  proof -
    have "fst (renderRow e tileRow rowNum w ctx) \<noteq> Resolved ()"
      using that by (simp add: renderRow_resolved_iff)
    then show ?thesis using renderRow_unresolved_canvas by blast
  qed
  have b: "fst (renderRow e tileRow rowNum w ctx) = Resolved ()
       \<and> ops (snd (snd (renderRow e tileRow rowNum w ctx))) =
           ops ctx @ rowTiles e rowNum (rowGlyphs e (storage w) tileRow)"
    if "\<forall>c\<in>set tileRow. succeeds e (storage w) c"
    using that renderRow_fulfilled_ops [OF that] by (simp add: renderRow_resolved_iff)
  have c: "\<exists>err'. fst (renderRow e tileRow rowNum w ctx) = Rejected err'
           \<and> (\<exists>c\<in>set tileRow. fetch e c = Rejected err')
           \<and> (tiles (generateMosaic e img cv tw th w0) = Inr (pre @ tileRow # rest)
              \<and> renderMosaic e pre (startWorld w0) (startCanvas e img cv) = (Resolved (), w, ctx)
              \<and> rowNum = length pre \<longrightarrow>
                returned (generateMosaic e img cv tw th w0) = Inr (Rejected err')
              \<and> surface (generateMosaic e img cv tw th w0) = ctx
              \<and> after (generateMosaic e img cv tw th w0) = fst (snd (renderRow e tileRow rowNum w ctx)))"
    if h: "color \<in> set tileRow" "missing e (storage w) color" "fetch e color = Rejected err"
  proof -
    obtain err' where rej: "fst (renderRow e tileRow rowNum w ctx) = Rejected err'"
      using renderRow_rejects [OF h] by blast
    have cause: "\<exists>c\<in>set tileRow. fetch e c = Rejected err'"
      using rej by (rule renderRow_rejected_cause)
    have same: "snd (snd (renderRow e tileRow rowNum w ctx)) = ctx"
      using rej by (intro renderRow_unresolved_canvas) simp
    have gen: "returned (generateMosaic e img cv tw th w0) = Inr (Rejected err')
              \<and> surface (generateMosaic e img cv tw th w0) = ctx
              \<and> after (generateMosaic e img cv tw th w0) = fst (snd (renderRow e tileRow rowNum w ctx))"
      if t: "tiles (generateMosaic e img cv tw th w0) = Inr (pre @ tileRow # rest)"
        and b: "renderMosaic e pre (startWorld w0) (startCanvas e img cv) = (Resolved (), w, ctx)"
        and n: "rowNum = length pre"
    proof -
      have "renderMosaic e (pre @ tileRow # rest) (startWorld w0) (startCanvas e img cv) =
            renderRow e tileRow (length pre) w ctx"
        using renderMosaic_stops [of e pre "startWorld w0" "startCanvas e img cv" tileRow rest] b rej n
        by simp
      then show ?thesis
        using rej same n by (simp add: generateMosaic_rendered [OF t])
    qed
    show ?thesis using rej cause gen by blast
  qed
  show ?thesis
    using resolve_outcome a b c renderRow_requests by blast
qed

text \<open>
  A row with a lookup that never answers: the row stays pending and the canvas is
  untouched, although the other colour of the row resolved. A row whose lookups all answer:
  both tiles are drawn. An image whose second row of tiles has the colour whose lookup
  fails: the first row is drawn, the call is rejected.
\<close>

theorem no_partial_row_witness:
  "(\<exists>c\<in>set [''000000'', ''0c2238'']. \<not> succeeds envSlow (storage world0) c)
   \<and> outcomeOf envSlow (storage world0) ''000000'' = Resolved (Glyph ''<svg>000000'')
   \<and> outcomeOf envSlow (storage world0) ''0c2238'' = Pending
   \<and> fst (renderRow envSlow [''000000'', ''0c2238''] 0 world0 blankCanvas) = Pending
   \<and> snd (snd (renderRow envSlow [''000000'', ''0c2238''] 0 world0 blankCanvas)) = blankCanvas
   \<and> succeeds env0 (storage world0) ''000000'' \<and> succeeds env0 (storage world0) ''0c2238''
   \<and> fst (renderRow env0 [''000000'', ''0c2238''] 3 world0 blankCanvas) = Resolved ()
   \<and> ops (snd (snd (renderRow env0 [''000000'', ''0c2238''] 3 world0 blankCanvas))) =
       [ClearRect 0 6 2 2, DrawImage (Glyph ''<svg>000000'') 0 6,
        ClearRect 2 6 2 2, DrawImage (Glyph ''<svg>0c2238'') 2 6]
   \<and> requests (fst (snd (renderRow env0 [''000000'', ''0c2238''] 3 world0 blankCanvas))) =
       [''000000'', ''0c2238'']
   \<and> ''0c2238'' \<in> set [''0c2238'', ''0c2238'']
   \<and> missing env1 (storage (worldAfter env1 [[''000000'', ''000000'']] (startWorld world0)
                              (startCanvas env1 img2 blankCanvas))) ''0c2238''
   \<and> fetch env1 ''0c2238'' = Rejected NetworkError
   \<and> tiles (generateMosaic env1 img2 blankCanvas 1 1 world0) =
        Inr ([[''000000'', ''000000'']] @ [''0c2238'', ''0c2238''] # [])
   \<and> fst (renderMosaic env1 [[''000000'', ''000000'']] (startWorld world0)
            (startCanvas env1 img2 blankCanvas)) = Resolved ()
   \<and> returned (generateMosaic env1 img2 blankCanvas 1 1 world0) = Inr (Rejected NetworkError)
   \<and> surface (generateMosaic env1 img2 blankCanvas 1 1 world0) =
        canvasAfter env1 [[''000000'', ''000000'']] (startWorld world0) (startCanvas env1 img2 blankCanvas)
   \<and> ops (surface (generateMosaic env1 img2 blankCanvas 1 1 world0)) =
        [ClearRect 0 0 1 1, DrawImage (Glyph ''<svg>000000'') 0 0,
         ClearRect 1 0 1 1, DrawImage (Glyph ''<svg>000000'') 1 0]"
proof -
  let ?slow = "[''000000'', ''0c2238'']"
  have p1: "\<exists>c\<in>set ?slow. \<not> succeeds envSlow (storage world0) c" by code_simp
  have p2: "outcomeOf envSlow (storage world0) ''000000'' = Resolved (Glyph ''<svg>000000'')"
    "outcomeOf envSlow (storage world0) ''0c2238'' = Pending"
    by code_simp+
  have p3: "fst (renderRow envSlow ?slow 0 world0 blankCanvas) = Pending" by code_simp
  have p4: "snd (snd (renderRow envSlow ?slow 0 world0 blankCanvas)) = blankCanvas"
    using no_partial_row [of envSlow "''0c2238''" world0 ?slow 0 blankCanvas] p1 by blast
  have f1: "succeeds env0 (storage world0) ''000000''" "succeeds env0 (storage world0) ''0c2238''"
    by code_simp+
  then have f2: "\<forall>c\<in>set ?slow. succeeds env0 (storage world0) c" by simp
  have f3: "rowTiles env0 3 (rowGlyphs env0 (storage world0) ?slow) =
       [ClearRect 0 6 2 2, DrawImage (Glyph ''<svg>000000'') 0 6,
        ClearRect 2 6 2 2, DrawImage (Glyph ''<svg>0c2238'') 2 6]"
    by code_simp
  have f4: "filter (missing env0 (storage world0)) ?slow = ?slow" by code_simp
  note t0 = no_partial_row [of env0 "''0c2238''" world0 ?slow 3 blankCanvas]
  have f5: "fst (renderRow env0 ?slow 3 world0 blankCanvas) = Resolved ()"
    using t0 f2 by blast
  have f6: "ops (snd (snd (renderRow env0 ?slow 3 world0 blankCanvas))) =
       [ClearRect 0 6 2 2, DrawImage (Glyph ''<svg>000000'') 0 6,
        ClearRect 2 6 2 2, DrawImage (Glyph ''<svg>0c2238'') 2 6]"
    using t0 f2 f3 by (simp add: blankCanvas_def)
  have f7: "requests (fst (snd (renderRow env0 ?slow 3 world0 blankCanvas))) = ?slow"
    using t0 f4 by (simp add: world0_def)
  let ?pre = "[[''000000'', ''000000'']]"
  let ?r = "renderMosaic env1 ?pre (startWorld world0) (startCanvas env1 img2 blankCanvas)"
  have h1: "''0c2238'' \<in> set [''0c2238'', ''0c2238'']" by simp
  have h2: "missing env1 (storage (worldAfter env1 ?pre (startWorld world0)
                              (startCanvas env1 img2 blankCanvas))) ''0c2238''" by code_simp
  have h3: "fetch env1 ''0c2238'' = Rejected NetworkError" by (simp add: env1_def)
  have h4: "tiles (generateMosaic env1 img2 blankCanvas 1 1 world0) =
        Inr (?pre @ [''0c2238'', ''0c2238''] # [])" by code_simp
  have h5: "fst ?r = Resolved ()" by code_simp
  then have h6: "?r = (Resolved (), worldAfter env1 ?pre (startWorld world0) (startCanvas env1 img2 blankCanvas),
                        canvasAfter env1 ?pre (startWorld world0) (startCanvas env1 img2 blankCanvas))"
    unfolding worldAfter_def canvasAfter_def by (metis prod.collapse)
  have h7: "returned (generateMosaic env1 img2 blankCanvas 1 1 world0) = Inr (Rejected NetworkError)"
    by code_simp
  have h8: "ops (canvasAfter env1 ?pre (startWorld world0) (startCanvas env1 img2 blankCanvas)) =
        [ClearRect 0 0 1 1, DrawImage (Glyph ''<svg>000000'') 0 0,
         ClearRect 1 0 1 1, DrawImage (Glyph ''<svg>000000'') 1 0]"
    by code_simp
  have h9: "surface (generateMosaic env1 img2 blankCanvas 1 1 world0) =
        canvasAfter env1 ?pre (startWorld world0) (startCanvas env1 img2 blankCanvas)"
    using no_partial_row [of env1 "''0c2238''"
        "worldAfter env1 ?pre (startWorld world0) (startCanvas env1 img2 blankCanvas)"
        "[''0c2238'', ''0c2238'']" 1
        "canvasAfter env1 ?pre (startWorld world0) (startCanvas env1 img2 blankCanvas)"
        NetworkError img2 blankCanvas 1 1 world0 ?pre "[]"]
      h1 h2 h3 h4 h6
    by auto
  show ?thesis
    using p1 p2 p3 p4 f1 f5 f6 f7 h1 h2 h3 h4 h5 h7 h8 h9 by simp
qed

section \<open>Store failures and cache hits\<close>

text \<open>
  Claim C4. On the cache-miss path, when the lookup answers and \<^verbatim>\<open>setItem\<close> throws, the
  resolver removes every \<^verbatim>\<open>mosaic-\<close> entry from the storage and settles exactly as
  \<^verbatim>\<open>loadSVGtoIMG\<close> of the fetched text does: it is not rejected, and it resolves with the
  glyph when the text decodes. A row none of whose lookups is rejected is not rejected,
  whatever the storage does: a store failure never fails the row.
\<close>

theorem store_failure_is_absorbed:
  assumes "missing e (storage w) color"
    and "fetch e color = Resolved svg"
    and "quotaExceeded e (storage w) (storageKey e color) svg"
  shows "resolve e color w =
           (loadSVGtoIMG e svg,
            \<lparr> storage = clearCachedSvgs (storage w), requests = requests w @ [color] \<rparr>)
       \<and> (\<forall>k v. (k, v) \<in> set (storage (snd (resolve e color w))) \<longrightarrow> \<not> startsWith k ''mosaic-'')
       \<and> (\<forall>err. fst (resolve e color w) \<noteq> Rejected err)
       \<and> (decodable e svg \<longrightarrow> fst (resolve e color w) = Resolved (Glyph svg))
       \<and> ((\<forall>c\<in>set tileRow. \<forall>err. fetch e c \<noteq> Rejected err) \<longrightarrow>
             (\<forall>err. fst (renderRow e tileRow rowNum w' ctx) \<noteq> Rejected err))"
proof -
  have r: "resolve e color w =
           (loadSVGtoIMG e svg,
            \<lparr> storage = clearCachedSvgs (storage w), requests = requests w @ [color] \<rparr>)"
    using assms by (simp add: resolve_miss missing_def fetched_def cacheAndLoad_def setItem_def)
  have row: "(\<forall>c\<in>set tileRow. \<forall>err. fetch e c \<noteq> Rejected err) \<longrightarrow>
             (\<forall>err. fst (renderRow e tileRow rowNum w' ctx) \<noteq> Rejected err)"
    using renderRow_rejected_cause by blast
  show ?thesis
    unfolding r using clearCachedSvgs_none_left row
    by (auto simp add: loadSVGtoIMG_def)
qed

text \<open>
  A full storage holding a foreign key and an old glyph: the glyph is dropped, the
  foreign key stays, the new glyph resolves and the row is fulfilled.
\<close>

theorem store_failure_is_absorbed_witness:
  "missing envFull (storage worldOld) ''0c2238''
   \<and> fetch envFull ''0c2238'' = Resolved ''<svg>0c2238''
   \<and> quotaExceeded envFull (storage worldOld) (storageKey envFull ''0c2238'') ''<svg>0c2238''
   \<and> decodable envFull ''<svg>0c2238''
   \<and> resolve envFull ''0c2238'' worldOld =
        (Resolved (Glyph ''<svg>0c2238''), \<lparr> storage = [(''theme'', ''dark'')], requests = [''0c2238''] \<rparr>)
   \<and> fetch envFull ''ffffff'' = Resolved ''<svg>ffffff''
   \<and> (\<forall>err. fst (renderRow envFull [''0c2238'', ''ffffff''] 0 worldOld blankCanvas) \<noteq> Rejected err)
   \<and> fst (renderRow envFull [''0c2238'', ''ffffff''] 0 worldOld blankCanvas) = Resolved ()"
proof -
  have h1: "missing envFull (storage worldOld) ''0c2238''" by code_simp
  have h2: "fetch envFull ''0c2238'' = Resolved ''<svg>0c2238''" by (simp add: envFull_def env0_def)
  have h3: "quotaExceeded envFull (storage worldOld) (storageKey envFull ''0c2238'') ''<svg>0c2238''"
    by (simp add: envFull_def)
  have h4: "decodable envFull ''<svg>0c2238''" by (simp add: envFull_def env0_def)
  have c: "clearCachedSvgs (storage worldOld) = [(''theme'', ''dark'')]" by code_simp
  have l: "loadSVGtoIMG envFull ''<svg>0c2238'' = Resolved (Glyph ''<svg>0c2238'')"
    using h4 by (simp add: loadSVGtoIMG_def)
  have row: "fst (renderRow envFull [''0c2238'', ''ffffff''] 0 worldOld blankCanvas) = Resolved ()"
    by code_simp
  have h5: "fetch envFull ''ffffff'' = Resolved ''<svg>ffffff''" by (simp add: envFull_def env0_def)
  have ok: "\<forall>c\<in>set [''0c2238'', ''ffffff'']. \<forall>err. fetch envFull c \<noteq> Rejected err"
    by (simp add: envFull_def env0_def)
  have nr: "\<forall>err. fst (renderRow envFull [''0c2238'', ''ffffff''] 0 worldOld blankCanvas) \<noteq> Rejected err"
    using store_failure_is_absorbed [OF h1 h2 h3, of "[''0c2238'', ''ffffff'']" 0 worldOld blankCanvas] ok
    by blast
  have r: "resolve envFull ''0c2238'' worldOld =
        (Resolved (Glyph ''<svg>0c2238''), \<lparr> storage = [(''theme'', ''dark'')], requests = [''0c2238''] \<rparr>)"
    using store_failure_is_absorbed [OF h1 h2 h3, of "[''0c2238'', ''ffffff'']" 0 worldOld blankCanvas] c l
    by (simp add: worldOld_def)
  show ?thesis
    using h1 h2 h3 h4 h5 nr r row by blast
qed

text \<open>
  Claim C6. When a colour misses the cache, the service answers with a glyph blob (a text
  that is not empty and that loads as an image) and the store succeeds, the resolution
  returns the glyph, stores the blob under the key
  \<^verbatim>\<open>mosaic-{color}-{TILE_WIDTH}-{TILE_HEIGHT}\<close> and issues one request. The next
  resolution of the same colour returns the glyph of the cached blob, leaves the world as
  it is and issues no request: the request list still holds the single request of the
  first resolution.
\<close>

theorem cached_glyph_is_reused:
  assumes "missing e (storage w) color"
    and "fetch e color = Resolved svg"
    and "\<not> quotaExceeded e (storage w) (storageKey e color) svg"
    and "glyphBlob e svg"
  shows "fst (resolve e color w) = Resolved (Glyph svg)
       \<and> getItem (storage (snd (resolve e color w))) (storageKey e color) = Some svg
       \<and> requests (snd (resolve e color w)) = requests w @ [color]
       \<and> resolve e color (snd (resolve e color w)) = (Resolved (Glyph svg), snd (resolve e color w))
       \<and> requests (snd (resolve e color (snd (resolve e color w)))) = requests w @ [color]"
proof -
  let ?w1 = "\<lparr> storage = store (storageKey e color) svg (storage w), requests = requests w @ [color] \<rparr>"
  have l: "loadSVGtoIMG e svg = Resolved (Glyph svg)" and ne: "svg \<noteq> []"
    using assms(4) by (simp_all add: glyphBlob_def loadSVGtoIMG_def)
  have r: "resolve e color w = (Resolved (Glyph svg), ?w1)"
    using assms(1,2,3) l by (simp add: resolve_miss missing_def fetched_def cacheAndLoad_def setItem_def)
  have g: "getItem (storage ?w1) (storageKey e color) = Some svg"
    by (simp add: getItem_store)
  show ?thesis
    unfolding r using g resolve_hit [OF g ne] l by simp
qed

text \<open>
  The colour \<^verbatim>\<open>0c2238\<close> resolved twice from an empty storage: one request.
\<close>

theorem cached_glyph_is_reused_witness:
  "missing env0 (storage world0) ''0c2238''
   \<and> fetch env0 ''0c2238'' = Resolved ''<svg>0c2238''
   \<and> \<not> quotaExceeded env0 (storage world0) (storageKey env0 ''0c2238'') ''<svg>0c2238''
   \<and> glyphBlob env0 ''<svg>0c2238''
   \<and> storage (snd (resolve env0 ''0c2238'' world0)) = [(''mosaic-0c2238-2-2'', ''<svg>0c2238'')]
   \<and> fst (resolve env0 ''0c2238'' (snd (resolve env0 ''0c2238'' world0))) = Resolved (Glyph ''<svg>0c2238'')
   \<and> requests (snd (resolve env0 ''0c2238'' (snd (resolve env0 ''0c2238'' world0)))) = [''0c2238'']"
proof -
  have h1: "missing env0 (storage world0) ''0c2238''" by code_simp
  have h2: "fetch env0 ''0c2238'' = Resolved ''<svg>0c2238''" by (simp add: env0_def)
  have h3: "\<not> quotaExceeded env0 (storage world0) (storageKey env0 ''0c2238'') ''<svg>0c2238''"
    by (simp add: env0_def)
  have h4: "glyphBlob env0 ''<svg>0c2238''" by (simp add: glyphBlob_def env0_def)
  have s: "storage (snd (resolve env0 ''0c2238'' world0)) = [(''mosaic-0c2238-2-2'', ''<svg>0c2238'')]"
    by code_simp
  show ?thesis
    using cached_glyph_is_reused [OF h1 h2 h3 h4] h1 h2 h3 h4 s
    by (simp add: world0_def)
qed

section \<open>The grid and its inputs\<close>

text \<open>
  Claim C7. The grid of a \<^verbatim>\<open>generate\<close> call does not depend on the canvas passed, on the
  storage and the request list it starts from, or on the glyph service, the decoder and the
  storage quota: in particular a second call on the canvas and the world the first call
  left computes the same grid. The grid is a function of the image, the tile constants and
  the tile-size arguments.
\<close>

theorem grid_ignores_cache:
  "tiles (generateMosaic (e\<lparr>fetch := f, decodable := d, quotaExceeded := q, arrival := a\<rparr>) img cv' tw th w') =
     tiles (generateMosaic e img cv tw th w)
   \<and> tiles (generateMosaic e img (surface (generateMosaic e img cv tw th w)) tw th
              (after (generateMosaic e img cv tw th w))) =
     tiles (generateMosaic e img cv tw th w)
   \<and> tiles (generateMosaic e img cv tw th w) =
       mosaicArray e (baseLayer img (clipImage e img) blankCanvas)
         (width (clipImage e img)) (height (clipImage e img)) tw th"
proof -
  have c: "startCanvas e' img cv1 = baseLayer img (clipImage e img) blankCanvas"
    if "TILE_WIDTH e' = TILE_WIDTH e" "TILE_HEIGHT e' = TILE_HEIGHT e" for e' cv1
    using that by (simp add: startCanvas_def clipImage_def baseLayer_def)
  show ?thesis
    unfolding tiles_generateMosaic
    by (simp add: c mosaicArray_collaborators) (simp add: clipImage_def)
qed

text \<open>
  Claim C8 fails on the code. With a service whose answer does not decode, the promise of
  \<^verbatim>\<open>loadSVGtoIMG\<close> is never settled, for a fetched blob and for a cached one alike; the
  row's promise and the promise of \<^verbatim>\<open>generate\<close> stay pending and are not rejected.
\<close>

theorem undecodable_glyph_never_settles:
  "\<not> decodable envUndecodable ''<html>''
   \<and> loadSVGtoIMG envUndecodable ''<html>'' = Pending
   \<and> fetch envUndecodable ''0c2238'' = Resolved ''<html>''
   \<and> fst (resolve envUndecodable ''0c2238'' world0) = Pending
   \<and> getItem (storage worldCached) (storageKey envUndecodable ''0c2238'') = Some ''<html>''
   \<and> fst (resolve envUndecodable ''0c2238'' worldCached) = Pending
   \<and> fst (renderRow envUndecodable [''0c2238''] 0 world0 blankCanvas) = Pending
   \<and> tiles (generate envUndecodable img0 world0) = Inr [[''0c2238'', ''0c2238''], [''0c2238'', ''0c2238'']]
   \<and> returned (generate envUndecodable img0 world0) = Inr Pending"
  by code_simp

text \<open>
  Claim C9. With positive tile constants and the default tile-size arguments, for an image
  narrower or lower than one tile the call does not throw and its promise is fulfilled; the
  clipped side is 0, every row of the grid is empty (there is no row at all when the image
  is lower than a tile), the canvas has the clipped size and no mutation, and no glyph is
  requested.
\<close>

theorem undersized_image_gives_empty_mosaic:
  assumes "0 < TILE_WIDTH e" and "0 < TILE_HEIGHT e"
    and "width img < TILE_WIDTH e \<or> height img < TILE_HEIGHT e"
  shows "\<exists>grid. tiles (generate e img w) = Inr grid
           \<and> concat grid = []
           \<and> (width img < TILE_WIDTH e \<longrightarrow> width (clipImage e img) = 0 \<and> (\<forall>row\<in>set grid. row = []))
           \<and> (height img < TILE_HEIGHT e \<longrightarrow> height (clipImage e img) = 0 \<and> grid = [])
           \<and> returned (generate e img w) = Inr (Resolved ())
           \<and> ops (surface (generate e img w)) = []
           \<and> width (surface (generate e img w)) = width (clipImage e img)
           \<and> height (surface (generate e img w)) = height (clipImage e img)
           \<and> requests (after (generate e img w)) = requests w"
proof -
  let ?cell = "\<lambda>y x. tileColor e (getImageData (startCanvas e img blankCanvas)
                 (TILE_WIDTH e * x) (TILE_HEIGHT e * y) (TILE_WIDTH e) (TILE_HEIGHT e))"
  let ?grid = "map (\<lambda>y. map (?cell y) [0..<width img div TILE_WIDTH e]) [0..<height img div TILE_HEIGHT e]"
  have t: "tiles (generate e img w) = Inr ?grid"
    unfolding generate_def tiles_generateMosaic using assms(1,2) by (rule mosaicArray_default)
  have empty: "row = []" if "row \<in> set ?grid" for row
    using that assms(3) by auto
  then have c: "concat ?grid = []" by simp
  have r: "renderMosaic e ?grid (startWorld w) (startCanvas e img blankCanvas) =
           (Resolved (), startWorld w, startCanvas e img blankCanvas)"
    unfolding renderMosaic_def using empty by (rule reduce_empty_rows)
  have g: "returned (generate e img w) = Inr (Resolved ())"
    "after (generate e img w) = startWorld w"
    "surface (generate e img w) = startCanvas e img blankCanvas"
    using generateMosaic_rendered [OF t [unfolded generate_def]] r by (simp_all add: generate_def)
  have w: "width img < TILE_WIDTH e \<longrightarrow> width (clipImage e img) = 0 \<and> (\<forall>row\<in>set ?grid. row = [])"
    by (auto simp add: clipImage_def)
  have h: "height img < TILE_HEIGHT e \<longrightarrow> height (clipImage e img) = 0 \<and> ?grid = []"
    by (auto simp add: clipImage_def)
  show ?thesis
    using t c w h unfolding g
    by (simp add: startWorld_def startCanvas_def baseLayer_def)
qed

text \<open>
  An image one pixel wide with tiles of 2 by 2 pixels.
\<close>

theorem undersized_image_gives_empty_mosaic_witness:
  "0 < TILE_WIDTH env0 \<and> 0 < TILE_HEIGHT env0 \<and> width imgSmall < TILE_WIDTH env0
   \<and> tiles (generate env0 imgSmall world0) = Inr [[], []]
   \<and> returned (generate env0 imgSmall world0) = Inr (Resolved ())
   \<and> ops (surface (generate env0 imgSmall world0)) = []
   \<and> width (surface (generate env0 imgSmall world0)) = 0"
proof -
  have h: "0 < TILE_WIDTH env0" "0 < TILE_HEIGHT env0"
    "width imgSmall < TILE_WIDTH env0 \<or> height imgSmall < TILE_HEIGHT env0"
    by (simp_all add: env0_def imgSmall_def)
  have t: "tiles (generate env0 imgSmall world0) = Inr [[], []]" by code_simp
  have c: "width (clipImage env0 imgSmall) = 0"
    by (simp add: clipImage_def env0_def imgSmall_def)
  show ?thesis
    using undersized_image_gives_empty_mosaic [OF h, of world0] h(1,2) t c
    by (simp add: env0_def imgSmall_def)
qed



end
